theory Spec2Isabelle
  imports Main "HOL-Library.Char_ord" "HOL-Library.List_Lexorder"
begin

section \<open>Data model\<close>

text \<open>
  The application keeps its data in relational tables and reaches them through the three
  helpers of \<^verbatim>\<open>lib/db.js\<close> (\<^verbatim>\<open>executeQuery\<close>, \<^verbatim>\<open>fetchRows\<close>, \<^verbatim>\<open>fetchOne\<close>).
  A table is a list of rows in insertion order: \<^verbatim>\<open>INSERT\<close> appends a row,
  \<^verbatim>\<open>UPDATE ... WHERE\<close> rewrites every row that matches, \<^verbatim>\<open>fetchOne\<close> yields the first
  row that matches, and an inner \<^verbatim>\<open>JOIN\<close> pairs a row with every partner row. No statement
  is wrapped in a database transaction, so whatever was written before a \<^verbatim>\<open>throw\<close> stays
  written: every operation returns its outcome together with the database it leaves.

  The tables are declared in the repository's schema file. An \<^verbatim>\<open>INSERT\<close> that violates a
  \<^verbatim>\<open>PRIMARY KEY\<close>, \<^verbatim>\<open>UNIQUE\<close>, \<^verbatim>\<open>NOT NULL\<close> or \<^verbatim>\<open>CHECK\<close> clause of its table is rejected
  by the engine, writes nothing, and surfaces as an error that \<^verbatim>\<open>executeQuery\<close> logs and
  rethrows. Whether a \<^verbatim>\<open>REFERENCES\<close> clause is enforced is a setting of the engine and not
  of the repository, so it is a field of the database: where it is set, an inserted
  reference that is not \<^verbatim>\<open>NULL\<close> must name a row of the parent table. The tables of users
  and suppliers are not modelled; a \<^verbatim>\<open>created_by\<close> is taken to name a user and a
  \<^verbatim>\<open>supplier_id\<close> a supplier.

  Identifiers are strings; a nullable column is an \<open>option\<close> (\<open>None\<close> for \<^verbatim>\<open>NULL\<close>).
  Quantities are integers. Only the columns that the modelled functions read or compare
  are kept; timestamps, free-text notes, stored prices and the surrogate \<^verbatim>\<open>id\<close> of an
  inventory row never influence control flow and are left out (that \<^verbatim>\<open>id\<close> is a fresh
  UUID, so its \<^verbatim>\<open>PRIMARY KEY\<close> clause never fires). The identifier that \<^verbatim>\<open>generateId\<close>
  draws (a random UUID) is an argument of the operation that draws it.

  The product column of the inventory table and of the ledger is nullable, and a call may
  pass \<^verbatim>\<open>null\<close> for the product. The location of an inventory row is never \<^verbatim>\<open>NULL\<close>: every
  \<^verbatim>\<open>INSERT\<close> into the table passes a location that a guard has found truthy, or the
  location argument of \<^verbatim>\<open>updateInventoryQuantity\<close>, whose route refuses a call without a
  product or without a location.
\<close>

type_synonym ident = string

text \<open>
  A field of a JavaScript object that may be left out: a field that is left out reads as
  \<^verbatim>\<open>undefined\<close>, which is not \<^verbatim>\<open>null\<close>. The difference matters at the database: the
  helpers of \<^verbatim>\<open>lib/db.js\<close> pass their parameters to \<^verbatim>\<open>db.prepare(query).bind(...params)\<close>
  of the D1 binding, which stores \<^verbatim>\<open>null\<close> as \<^verbatim>\<open>NULL\<close> but refuses \<^verbatim>\<open>undefined\<close> with a
  type error before the statement runs. \<open>sql_value\<close> is the column value that a field
  binds as, and \<open>js_value\<close> a column value read back into a field.

  The argument objects of \<^verbatim>\<open>createProduct\<close> and \<^verbatim>\<open>createSession\<close> come from the caller
  only; their optional fields are an \<open>option\<close>, a field without a value being passed as
  \<^verbatim>\<open>null\<close>.
\<close>

datatype 'a js = Undefined | Null | Val 'a

fun sql_value :: "'a js \<Rightarrow> 'a option" where
  "sql_value (Val x) = Some x"
| "sql_value Null = None"
| "sql_value Undefined = None"

fun js_value :: "'a option \<Rightarrow> 'a js" where
  "js_value (Some x) = Val x"
| "js_value None = Null"

text \<open>A price in hundredths; the modelled functions only pass it on.\<close>

type_synonym price = int

record product =
  prod_id :: ident
  prod_name :: string
  barcode :: "string option"
  description :: "string option"
  category_id :: "ident option"
  minimum_stock :: "int option"
  is_active :: bool

record category =
  cat_id :: ident
  parent_id :: "ident option"

record location =
  loc_id :: ident

record inventory_row =
  inv_product_id :: "ident option"
  inv_location_id :: ident
  quantity :: int

record inventory_transaction =
  trx_id :: ident
  transaction_type :: string
  trx_product_id :: "ident option"
  source_location_id :: "ident option"
  destination_location_id :: "ident option"
  trx_quantity :: int
  created_by :: ident
  session_id :: "ident option"

record session =
  sess_id :: ident
  session_type :: string
  status :: string
  sess_location_id :: "ident option"

record db =
  foreign_keys :: bool
  products :: "product list"
  categories :: "category list"
  locations :: "location list"
  inventory :: "inventory_row list"
  inventory_transactions :: "inventory_transaction list"
  sessions :: "session list"

text \<open>
  The argument object of \<^verbatim>\<open>createInventoryTransaction\<close>. Its type and its quantity are
  given by every caller; the other fields may be \<^verbatim>\<open>null\<close> or left out.
\<close>

record transaction_data =
  td_transaction_type :: string
  td_product_id :: "ident js"
  td_source_location_id :: "ident js"
  td_destination_location_id :: "ident js"
  td_quantity :: int
  td_batch_number :: "string js"
  td_expiration_date :: "string js"
  td_notes :: "string js"

text \<open>
  Every \<^verbatim>\<open>throw new Error(...)\<close> of the modelled functions, named after its message:
  \<^item> \<open>BarcodeExists\<close>: 'Product with this barcode already exists' (the spec's DuplicateKey);
  \<^item> \<open>NotInLocation\<close>: 'Product not found in this location' (NotFound);
  \<^item> \<open>InsufficientQuantity\<close>: 'Insufficient quantity available' (InsufficientStock);
  \<^item> \<open>NotInSourceLocation\<close>: 'Product not found in source location' (NotFound);
  \<^item> \<open>InsufficientForTransfer\<close>: 'Insufficient quantity available for transfer'
    (InsufficientStock);
  \<^item> \<open>SessionNotFound\<close>: 'Session not found' (NotFound);
  \<^item> \<open>CannotAddToClosed\<close>: 'Cannot add products to a completed or cancelled session'
    (InvalidState);
  \<^item> \<open>SessionAlreadyClosed\<close>: 'Session is already completed or cancelled' (InvalidState).

  \<open>ConstraintFailed\<close> is the engine's error for an \<^verbatim>\<open>INSERT\<close> that its table rejects, and
  \<open>UndefinedParameter\<close> the type error of the binding for a parameter that is
  \<^verbatim>\<open>undefined\<close>.
\<close>

datatype error =
    BarcodeExists
  | NotInLocation
  | InsufficientQuantity
  | NotInSourceLocation
  | InsufficientForTransfer
  | SessionNotFound
  | CannotAddToClosed
  | SessionAlreadyClosed
  | ConstraintFailed
  | UndefinedParameter

text \<open>
  JavaScript truthiness of an optional string, as used by \<^verbatim>\<open>if (barcode)\<close> and
  \<^verbatim>\<open>&& source_location_id\<close>: \<^verbatim>\<open>null\<close>, \<^verbatim>\<open>undefined\<close> and the empty string are falsy.
\<close>

definition truthy :: "string option \<Rightarrow> bool" where
  "truthy v = (case v of None \<Rightarrow> False | Some s \<Rightarrow> s \<noteq> [])"

definition js_truthy :: "string js \<Rightarrow> bool" where
  "js_truthy v = truthy (sql_value v)"

text \<open>SQL equality of a column with a bound parameter: a \<^verbatim>\<open>NULL\<close> on either side never matches.\<close>

definition sql_eq :: "'a option \<Rightarrow> 'a option \<Rightarrow> bool" where
  "sql_eq a b = (case a of None \<Rightarrow> False | Some x \<Rightarrow> b = Some x)"

text \<open>
  A \<^verbatim>\<open>REFERENCES\<close> clause on an inserted value: \<^verbatim>\<open>NULL\<close> always passes, and where the engine
  enforces foreign keys any other value must be among the keys of the parent table.
\<close>

definition fk_holds :: "db \<Rightarrow> ident option \<Rightarrow> ident list \<Rightarrow> bool" where
  "fk_holds s v keys =
     (if foreign_keys s then (case v of None \<Rightarrow> True | Some x \<Rightarrow> x \<in> set keys) else True)"

section \<open>Inventory and transaction engine (lib/inventory.js)\<close>

text \<open>\<^verbatim>\<open>SELECT * FROM inventory WHERE product_id = ? AND location_id = ?\<close> through \<^verbatim>\<open>fetchOne\<close>.\<close>

definition select_inventory :: "db \<Rightarrow> ident option \<Rightarrow> ident \<Rightarrow> inventory_row option" where
  "select_inventory s p l =
     find (\<lambda>r. sql_eq (inv_product_id r) p \<and> inv_location_id r = l) (inventory s)"

text \<open>
  \<^verbatim>\<open>UPDATE inventory SET quantity = quantity + ? WHERE product_id = ? AND location_id = ?\<close>
  (the subtracting statements pass the negated amount). A parameter may be \<^verbatim>\<open>NULL\<close>, in
  which case no row matches.
\<close>

definition update_quantity_add :: "ident option \<Rightarrow> ident option \<Rightarrow> int \<Rightarrow> db \<Rightarrow> db" where
  "update_quantity_add p l d s =
     s\<lparr>inventory := map (\<lambda>r. if sql_eq (inv_product_id r) p
                                 \<and> sql_eq (Some (inv_location_id r)) l
                              then r\<lparr>quantity := quantity r + d\<rparr> else r) (inventory s)\<rparr>"

text \<open>\<^verbatim>\<open>UPDATE inventory SET quantity = ? WHERE product_id = ? AND location_id = ?\<close>.\<close>

definition update_quantity_set :: "ident \<Rightarrow> ident \<Rightarrow> int \<Rightarrow> db \<Rightarrow> db" where
  "update_quantity_set p l q s =
     s\<lparr>inventory := map (\<lambda>r. if sql_eq (inv_product_id r) (Some p) \<and> inv_location_id r = l
                              then r\<lparr>quantity := q\<rparr> else r) (inventory s)\<rparr>"

text \<open>
  \<^verbatim>\<open>INSERT INTO inventory (id, product_id, location_id, quantity, ...)\<close>. The table
  declares \<^verbatim>\<open>UNIQUE(product_id, location_id)\<close>, which rows with a \<^verbatim>\<open>NULL\<close> product never
  violate, \<^verbatim>\<open>product_id REFERENCES products(id)\<close> and
  \<^verbatim>\<open>location_id REFERENCES locations(id)\<close>; its quantity is any integer.
\<close>

definition inventory_accepted :: "ident option \<Rightarrow> ident \<Rightarrow> db \<Rightarrow> bool" where
  "inventory_accepted p l s =
     ((\<forall>r \<in> set (inventory s). \<not> (sql_eq (inv_product_id r) p \<and> inv_location_id r = l))
      \<and> fk_holds s p (map prod_id (products s))
      \<and> fk_holds s (Some l) (map loc_id (locations s)))"

definition append_inventory :: "ident option \<Rightarrow> ident \<Rightarrow> int \<Rightarrow> db \<Rightarrow> db" where
  "append_inventory p l q s =
     s\<lparr>inventory := inventory s @ [\<lparr>inv_product_id = p, inv_location_id = l, quantity = q\<rparr>]\<rparr>"

definition insert_inventory :: "ident option \<Rightarrow> ident \<Rightarrow> int \<Rightarrow> db \<Rightarrow> error + db" where
  "insert_inventory p l q s =
     (if inventory_accepted p l s then Inr (append_inventory p l q s) else Inl ConstraintFailed)"

definition updateInventoryForCheckIn ::
    "ident option \<Rightarrow> ident \<Rightarrow> int \<Rightarrow> db \<Rightarrow> error + db" where
  "updateInventoryForCheckIn productId locationId qty s =
     (case select_inventory s productId locationId of
        Some existingInventory \<Rightarrow> Inr (update_quantity_add productId (Some locationId) qty s)
      | None \<Rightarrow> insert_inventory productId locationId qty s)"

definition updateInventoryForCheckOut ::
    "ident option \<Rightarrow> ident \<Rightarrow> int \<Rightarrow> db \<Rightarrow> error + db" where
  "updateInventoryForCheckOut productId locationId qty s =
     (case select_inventory s productId locationId of
        None \<Rightarrow> Inl NotInLocation
      | Some existingInventory \<Rightarrow>
          if quantity existingInventory < qty then Inl InsufficientQuantity
          else Inr (update_quantity_add productId (Some locationId) (- qty) s))"

definition updateInventoryForTransfer ::
    "ident option \<Rightarrow> ident \<Rightarrow> ident \<Rightarrow> int \<Rightarrow> db \<Rightarrow> error + db" where
  "updateInventoryForTransfer productId sourceLocationId destinationLocationId qty s =
     (case select_inventory s productId sourceLocationId of
        None \<Rightarrow> Inl NotInSourceLocation
      | Some sourceInventory \<Rightarrow>
          if quantity sourceInventory < qty then Inl InsufficientForTransfer
          else
            (let s1 = update_quantity_add productId (Some sourceLocationId) (- qty) s
             in case select_inventory s1 productId destinationLocationId of
                  Some destinationInventory \<Rightarrow>
                    Inr (update_quantity_add productId (Some destinationLocationId) qty s1)
                | None \<Rightarrow> insert_inventory productId destinationLocationId qty s1))"

text \<open>
  \<^verbatim>\<open>getTransactionById\<close>: the ledger row with the given id, inner-joined with its product
  (the left joins only add display names).
\<close>

definition getTransactionById :: "db \<Rightarrow> ident \<Rightarrow> inventory_transaction option" where
  "getTransactionById s tid =
     find (\<lambda>t. trx_id t = tid
               \<and> (\<exists>p \<in> set (products s). sql_eq (trx_product_id t) (Some (prod_id p))))
       (inventory_transactions s)"

text \<open>The row that \<^verbatim>\<open>createInventoryTransaction\<close> inserts into \<^verbatim>\<open>inventory_transactions\<close>.\<close>

definition transaction_row ::
    "ident \<Rightarrow> transaction_data \<Rightarrow> ident \<Rightarrow> ident option \<Rightarrow> inventory_transaction" where
  "transaction_row tid d userId sessionId =
     \<lparr>trx_id = tid, transaction_type = td_transaction_type d,
      trx_product_id = sql_value (td_product_id d),
      source_location_id = sql_value (td_source_location_id d),
      destination_location_id = sql_value (td_destination_location_id d),
      trx_quantity = td_quantity d, created_by = userId, session_id = sessionId\<rparr>"

text \<open>
  The parameters of the ledger \<^verbatim>\<open>INSERT\<close> that may be \<^verbatim>\<open>undefined\<close>: the statement binds
  all of them, those of the columns left out here included.
\<close>

definition bindable :: "transaction_data \<Rightarrow> bool" where
  "bindable d =
     (td_product_id d \<noteq> Undefined
      \<and> td_source_location_id d \<noteq> Undefined \<and> td_destination_location_id d \<noteq> Undefined
      \<and> td_batch_number d \<noteq> Undefined \<and> td_expiration_date d \<noteq> Undefined
      \<and> td_notes d \<noteq> Undefined)"

text \<open>
  \<^verbatim>\<open>INSERT INTO inventory_transactions (...)\<close>. The table declares \<^verbatim>\<open>id PRIMARY KEY\<close>,
  \<^verbatim>\<open>transaction_type CHECK(transaction_type IN ('check_in', 'check_out', 'adjustment',
  'transfer')) NOT NULL\<close>, an integer quantity without further condition, and
  \<^verbatim>\<open>REFERENCES\<close> clauses on the product, the two locations and the session.
\<close>

definition transaction_accepted :: "inventory_transaction \<Rightarrow> db \<Rightarrow> bool" where
  "transaction_accepted row s =
     (trx_id row \<notin> set (map trx_id (inventory_transactions s))
      \<and> transaction_type row \<in> {''check_in'', ''check_out'', ''adjustment'', ''transfer''}
      \<and> fk_holds s (trx_product_id row) (map prod_id (products s))
      \<and> fk_holds s (source_location_id row) (map loc_id (locations s))
      \<and> fk_holds s (destination_location_id row) (map loc_id (locations s))
      \<and> fk_holds s (session_id row) (map sess_id (sessions s)))"

definition append_transaction :: "inventory_transaction \<Rightarrow> db \<Rightarrow> db" where
  "append_transaction row s = s\<lparr>inventory_transactions := inventory_transactions s @ [row]\<rparr>"

text \<open>
  The ledger \<^verbatim>\<open>INSERT\<close> through \<^verbatim>\<open>executeQuery\<close>: the parameters are bound first, and the
  statement then runs against the table.
\<close>

definition insert_transaction ::
    "ident \<Rightarrow> transaction_data \<Rightarrow> ident \<Rightarrow> ident option \<Rightarrow> db \<Rightarrow> error + db" where
  "insert_transaction tid d userId sessionId s =
     (if \<not> bindable d then Inl UndefinedParameter
      else if transaction_accepted (transaction_row tid d userId sessionId) s
      then Inr (append_transaction (transaction_row tid d userId sessionId) s)
      else Inl ConstraintFailed)"

text \<open>
  \<^verbatim>\<open>createInventoryTransaction(db, transactionData, userId, sessionId = null)\<close>; \<open>tid\<close> is
  the id drawn by \<^verbatim>\<open>generateId('trx-')\<close>. The ledger row is inserted first; the inventory
  helper for the row's type runs afterwards and may throw.
\<close>

definition createInventoryTransaction ::
    "ident \<Rightarrow> transaction_data \<Rightarrow> ident \<Rightarrow> ident option \<Rightarrow> db
       \<Rightarrow> (error + inventory_transaction option) \<times> db" where
  "createInventoryTransaction tid d userId sessionId s =
     (case insert_transaction tid d userId sessionId s of
        Inl e \<Rightarrow> (Inl e, s)
      | Inr s1 \<Rightarrow>
          if td_transaction_type d = ''check_in'' \<and> js_truthy (td_destination_location_id d)
          then
            (case updateInventoryForCheckIn (sql_value (td_product_id d))
                    (the (sql_value (td_destination_location_id d))) (td_quantity d) s1 of
               Inl e \<Rightarrow> (Inl e, s1)
             | Inr s2 \<Rightarrow> (Inr (getTransactionById s2 tid), s2))
          else if td_transaction_type d = ''check_out'' \<and> js_truthy (td_source_location_id d)
          then
            (case updateInventoryForCheckOut (sql_value (td_product_id d))
                    (the (sql_value (td_source_location_id d))) (td_quantity d) s1 of
               Inl e \<Rightarrow> (Inl e, s1)
             | Inr s2 \<Rightarrow> (Inr (getTransactionById s2 tid), s2))
          else if td_transaction_type d = ''transfer'' \<and> js_truthy (td_source_location_id d)
                    \<and> js_truthy (td_destination_location_id d)
          then
            (case updateInventoryForTransfer (sql_value (td_product_id d))
                    (the (sql_value (td_source_location_id d)))
                    (the (sql_value (td_destination_location_id d))) (td_quantity d) s1 of
               Inl e \<Rightarrow> (Inl e, s1)
             | Inr s2 \<Rightarrow> (Inr (getTransactionById s2 tid), s2))
          else (Inr (getTransactionById s1 tid), s1))"

text \<open>
  The row that \<^verbatim>\<open>updateInventoryQuantity\<close> returns: the inventory row inner-joined with its
  product and its location.
\<close>

definition select_inventory_joined :: "db \<Rightarrow> ident \<Rightarrow> ident \<Rightarrow> inventory_row option" where
  "select_inventory_joined s p l =
     find (\<lambda>r. sql_eq (inv_product_id r) (Some p) \<and> inv_location_id r = l
               \<and> (\<exists>x \<in> set (products s). sql_eq (inv_product_id r) (Some (prod_id x)))
               \<and> (\<exists>y \<in> set (locations s). loc_id y = inv_location_id r))
       (inventory s)"

text \<open>
  \<^verbatim>\<open>updateInventoryQuantity(db, productId, locationId, quantity, userId)\<close>: sets the
  quantity to the given target (inserting the row when there is none) and then calls
  \<^verbatim>\<open>createInventoryTransaction\<close> for an \<^verbatim>\<open>'adjustment'\<close> row carrying the absolute
  difference, with the location as source when the quantity went down and as destination
  when it went up. The object it passes has no \<^verbatim>\<open>batch_number\<close> and no
  \<^verbatim>\<open>expiration_date\<close>, and in the branch that inserts the inventory row no
  \<^verbatim>\<open>source_location_id\<close> either. The note is a text in both branches (in the first it
  also spells out the two quantities).
\<close>

definition updateInventoryQuantity ::
    "ident \<Rightarrow> ident \<Rightarrow> ident \<Rightarrow> int \<Rightarrow> ident \<Rightarrow> db \<Rightarrow> (error + inventory_row option) \<times> db" where
  "updateInventoryQuantity tid productId locationId qty userId s =
     (case select_inventory s (Some productId) locationId of
        Some existingInventory \<Rightarrow>
          (let adjustment = qty - quantity existingInventory;
               s1 = update_quantity_set productId locationId qty s
           in case createInventoryTransaction tid
                     \<lparr>td_transaction_type = ''adjustment'', td_product_id = Val productId,
                      td_source_location_id = (if adjustment < 0 then Val locationId else Null),
                      td_destination_location_id =
                        (if adjustment > 0 then Val locationId else Null),
                      td_quantity = \<bar>adjustment\<bar>,
                      td_batch_number = Undefined, td_expiration_date = Undefined,
                      td_notes = Val ''Manual quantity adjustment''\<rparr> userId None s1 of
                (Inl e, s2) \<Rightarrow> (Inl e, s2)
              | (Inr created, s2) \<Rightarrow>
                  (Inr (select_inventory_joined s2 productId locationId), s2))
      | None \<Rightarrow>
          (case insert_inventory (Some productId) locationId qty s of
             Inl e \<Rightarrow> (Inl e, s)
           | Inr s1 \<Rightarrow>
               (case createInventoryTransaction tid
                       \<lparr>td_transaction_type = ''adjustment'', td_product_id = Val productId,
                        td_source_location_id = Undefined,
                        td_destination_location_id = Val locationId,
                        td_quantity = qty,
                        td_batch_number = Undefined, td_expiration_date = Undefined,
                        td_notes = Val ''Initial inventory setup''\<rparr> userId None s1 of
                  (Inl e, s2) \<Rightarrow> (Inl e, s2)
                | (Inr created, s2) \<Rightarrow>
                    (Inr (select_inventory_joined s2 productId locationId), s2))))"

section \<open>Catalog service (lib/products.js)\<close>

record product_data =
  pd_name :: "string option"
  pd_barcode :: "string option"
  pd_description :: "string option"
  pd_category_id :: "ident option"
  pd_unit_price :: "price option"
  pd_unit_cost :: "price option"
  pd_minimum_stock :: "int option"

definition getProductById :: "db \<Rightarrow> ident \<Rightarrow> product option" where
  "getProductById s pid = find (\<lambda>p. prod_id p = pid) (products s)"

text \<open>
  \<^verbatim>\<open>INSERT INTO products (...)\<close>. The table declares \<^verbatim>\<open>id PRIMARY KEY\<close>,
  \<^verbatim>\<open>name TEXT NOT NULL\<close>, \<^verbatim>\<open>barcode TEXT UNIQUE\<close> (any number of rows may have a
  \<^verbatim>\<open>NULL\<close> barcode), \<^verbatim>\<open>category_id REFERENCES categories(id)\<close>, \<^verbatim>\<open>unit_price\<close> and
  \<^verbatim>\<open>unit_cost NOT NULL\<close>, and \<^verbatim>\<open>is_active DEFAULT 1\<close> for the column the statement leaves
  out.
\<close>

definition product_accepted :: "ident \<Rightarrow> product_data \<Rightarrow> db \<Rightarrow> bool" where
  "product_accepted pid productData s =
     (pid \<notin> set (map prod_id (products s))
      \<and> pd_name productData \<noteq> None
      \<and> (\<forall>p \<in> set (products s). \<not> sql_eq (barcode p) (pd_barcode productData))
      \<and> fk_holds s (pd_category_id productData) (map cat_id (categories s))
      \<and> pd_unit_price productData \<noteq> None
      \<and> pd_unit_cost productData \<noteq> None)"

definition product_row :: "ident \<Rightarrow> string \<Rightarrow> product_data \<Rightarrow> product" where
  "product_row pid name productData =
     \<lparr>prod_id = pid, prod_name = name, barcode = pd_barcode productData,
      description = pd_description productData, category_id = pd_category_id productData,
      minimum_stock = pd_minimum_stock productData, is_active = True\<rparr>"

definition insert_product :: "ident \<Rightarrow> product_data \<Rightarrow> db \<Rightarrow> error + db" where
  "insert_product pid productData s =
     (case pd_name productData of
        None \<Rightarrow> Inl ConstraintFailed
      | Some name \<Rightarrow>
          if product_accepted pid productData s
          then Inr (s\<lparr>products := products s @ [product_row pid name productData]\<rparr>)
          else Inl ConstraintFailed)"

text \<open>
  \<^verbatim>\<open>createProduct(db, productData, userId)\<close>; \<open>pid\<close> is the id drawn by
  \<^verbatim>\<open>generateId('prod-')\<close>.
\<close>

definition createProduct ::
    "ident \<Rightarrow> product_data \<Rightarrow> ident \<Rightarrow> db \<Rightarrow> (error + product option) \<times> db" where
  "createProduct pid productData userId s =
     (if truthy (pd_barcode productData)
         \<and> (\<exists>p \<in> set (products s). sql_eq (barcode p) (pd_barcode productData))
      then (Inl BarcodeExists, s)
      else
        (case insert_product pid productData s of
           Inl e \<Rightarrow> (Inl e, s)
         | Inr s1 \<Rightarrow> (Inr (getProductById s1 pid), s1)))"

section \<open>Inventory queries (lib/inventory.js)\<close>

record inventory_filters =
  flt_locationId :: "ident option"
  flt_categoryId :: "ident option"
  flt_search :: "string option"
  flt_lowStock :: bool
  flt_limit :: "int option"
  flt_offset :: "int option"

text \<open>One row of the join that \<^verbatim>\<open>getInventory\<close> selects from.\<close>

record inventory_view =
  iv_inventory :: inventory_row
  iv_product :: product
  iv_location :: location
  iv_category :: "category option"

text \<open>\<^verbatim>\<open>LEFT JOIN categories c ON p.category_id = c.id\<close>: every match, or one all-\<^verbatim>\<open>NULL\<close> partner.\<close>

definition left_join_category :: "db \<Rightarrow> product \<Rightarrow> category option list" where
  "left_join_category s p =
     (case filter (\<lambda>c. sql_eq (category_id p) (Some (cat_id c))) (categories s) of
        [] \<Rightarrow> [None]
      | cs \<Rightarrow> map Some cs)"

definition inventory_join :: "db \<Rightarrow> inventory_view list" where
  "inventory_join s =
     [\<lparr>iv_inventory = i, iv_product = p, iv_location = l, iv_category = c\<rparr>.
        i \<leftarrow> inventory s,
        p \<leftarrow> products s, sql_eq (inv_product_id i) (Some (prod_id p)),
        l \<leftarrow> locations s, loc_id l = inv_location_id i,
        c \<leftarrow> left_join_category s p]"

text \<open>\<^verbatim>\<open>i.quantity <= p.minimum_stock\<close>; a \<^verbatim>\<open>NULL\<close> threshold compares as unknown.\<close>

definition low_stock :: "inventory_row \<Rightarrow> product \<Rightarrow> bool" where
  "low_stock i p = (case minimum_stock p of None \<Rightarrow> False | Some m \<Rightarrow> quantity i \<le> m)"

text \<open>
  The \<^verbatim>\<open>WHERE\<close> clause that \<^verbatim>\<open>getInventory\<close> assembles. The engine's \<^verbatim>\<open>LIKE\<close> operator is
  the argument \<open>like\<close> (column value, pattern).
\<close>

definition inventory_where ::
    "(string option \<Rightarrow> string \<Rightarrow> bool) \<Rightarrow> inventory_filters \<Rightarrow> inventory_view \<Rightarrow> bool" where
  "inventory_where like f v =
     (is_active (iv_product v)
      \<and> (if truthy (flt_locationId f)
           then sql_eq (Some (inv_location_id (iv_inventory v))) (flt_locationId f) else True)
      \<and> (if truthy (flt_categoryId f)
           then sql_eq (category_id (iv_product v)) (flt_categoryId f)
                \<or> sql_eq (case iv_category v of None \<Rightarrow> None | Some c \<Rightarrow> parent_id c)
                     (flt_categoryId f)
           else True)
      \<and> (if truthy (flt_search f)
           then (let searchTerm = ''%'' @ the (flt_search f) @ ''%''
                 in like (Some (prod_name (iv_product v))) searchTerm
                    \<or> like (barcode (iv_product v)) searchTerm
                    \<or> like (description (iv_product v)) searchTerm)
           else True)
      \<and> (if flt_lowStock f then low_stock (iv_inventory v) (iv_product v) else True))"

text \<open>\<^verbatim>\<open>LIMIT ? OFFSET ?\<close>: a negative limit means no limit, a negative offset means none.\<close>

definition limit_offset :: "int \<Rightarrow> int \<Rightarrow> 'a list \<Rightarrow> 'a list" where
  "limit_offset lim off xs =
     (let ys = drop (nat off) xs in if lim < 0 then ys else take (nat lim) ys)"

text \<open>
  \<^verbatim>\<open>getInventory(db, filters)\<close> with the defaults \<^verbatim>\<open>limit = 100\<close> and \<^verbatim>\<open>offset = 0\<close>;
  \<^verbatim>\<open>ORDER BY p.name\<close> compares names bytewise.
\<close>

definition getInventory ::
    "(string option \<Rightarrow> string \<Rightarrow> bool) \<Rightarrow> db \<Rightarrow> inventory_filters \<Rightarrow> inventory_view list" where
  "getInventory like s f =
     limit_offset (case flt_limit f of None \<Rightarrow> 100 | Some n \<Rightarrow> n)
                  (case flt_offset f of None \<Rightarrow> 0 | Some n \<Rightarrow> n)
       (sort_key (\<lambda>v. prod_name (iv_product v))
          (filter (inventory_where like f) (inventory_join s)))"

text \<open>
  \<^verbatim>\<open>getInventorySummary\<close>: the totals range over inventory rows inner-joined with their
  active products. The monetary total and the per-category breakdown multiply by prices
  and are not modelled.
\<close>

record inventory_summary =
  total_bottles :: int
  low_stock_count :: nat

definition getInventorySummary :: "db \<Rightarrow> inventory_summary" where
  "getInventorySummary s =
     \<lparr>total_bottles =
        sum_list [quantity i. i \<leftarrow> inventory s, p \<leftarrow> products s,
                    sql_eq (inv_product_id i) (Some (prod_id p)), is_active p],
      low_stock_count =
        length [(i, p). i \<leftarrow> inventory s, p \<leftarrow> products s,
                  sql_eq (inv_product_id i) (Some (prod_id p)), is_active p \<and> low_stock i p]\<rparr>"

section \<open>Session engine (lib/sessions.js)\<close>

record session_data =
  sd_session_type :: string
  sd_location_id :: "ident option"

text \<open>The fields of \<^verbatim>\<open>transactionData\<close> that \<^verbatim>\<open>addProductToSession\<close> forwards.\<close>

record session_item =
  si_product_id :: "ident js"
  si_quantity :: int
  si_batch_number :: "string js"
  si_expiration_date :: "string js"
  si_notes :: "string js"

definition getSessionById :: "db \<Rightarrow> ident \<Rightarrow> session option" where
  "getSessionById s sid = find (\<lambda>x. sess_id x = sid) (sessions s)"

text \<open>
  \<^verbatim>\<open>INSERT INTO sessions (...)\<close>. The table declares \<^verbatim>\<open>id PRIMARY KEY\<close>,
  \<^verbatim>\<open>session_type CHECK(session_type IN ('check_in', 'check_out', 'inventory_count'))\<close>,
  a like \<^verbatim>\<open>CHECK\<close> on the status, which the statements here always satisfy, and
  \<^verbatim>\<open>location_id REFERENCES locations(id)\<close>.
\<close>

definition session_accepted :: "ident \<Rightarrow> session_data \<Rightarrow> db \<Rightarrow> bool" where
  "session_accepted sid sessionData s =
     (sid \<notin> set (map sess_id (sessions s))
      \<and> sd_session_type sessionData \<in> {''check_in'', ''check_out'', ''inventory_count''}
      \<and> fk_holds s (sd_location_id sessionData) (map loc_id (locations s)))"

definition createSession ::
    "ident \<Rightarrow> session_data \<Rightarrow> ident \<Rightarrow> db \<Rightarrow> (error + session option) \<times> db" where
  "createSession sid sessionData userId s =
     (if session_accepted sid sessionData s
      then
        (let s1 = s\<lparr>sessions := sessions s @
                     [\<lparr>sess_id = sid, session_type = sd_session_type sessionData,
                       status = ''in_progress'',
                       sess_location_id = sd_location_id sessionData\<rparr>]\<rparr>
         in (Inr (getSessionById s1 sid), s1))
      else (Inl ConstraintFailed, s))"

text \<open>
  \<^verbatim>\<open>getSessionTransactions\<close>: the ledger rows of the session, inner-joined with their
  product, newest first (\<^verbatim>\<open>ORDER BY t.created_at DESC\<close>; the ledger list is in insertion
  order, hence in ascending \<^verbatim>\<open>created_at\<close>).
\<close>

definition getSessionTransactions :: "db \<Rightarrow> ident \<Rightarrow> inventory_transaction list" where
  "getSessionTransactions s sessionId =
     rev [t. t \<leftarrow> inventory_transactions s, sql_eq (session_id t) (Some sessionId),
             p \<leftarrow> products s, sql_eq (trx_product_id t) (Some (prod_id p))]"

definition addProductToSession ::
    "ident \<Rightarrow> ident \<Rightarrow> session_item \<Rightarrow> ident \<Rightarrow> db
       \<Rightarrow> (error + inventory_transaction option) \<times> db" where
  "addProductToSession tid sessionId transactionData userId s =
     (case getSessionById s sessionId of
        None \<Rightarrow> (Inl SessionNotFound, s)
      | Some sess \<Rightarrow>
          if status sess \<noteq> ''in_progress'' then (Inl CannotAddToClosed, s)
          else
            (let ttype = (if session_type sess = ''check_in'' then ''check_in'' else ''check_out'')
             in createInventoryTransaction tid
                  \<lparr>td_transaction_type = ttype,
                   td_product_id = si_product_id transactionData,
                   td_source_location_id =
                     (if ttype = ''check_in'' then Null
                      else if ttype = ''check_out'' then js_value (sess_location_id sess)
                      else Null),
                   td_destination_location_id =
                     (if ttype = ''check_in'' then js_value (sess_location_id sess) else Null),
                   td_quantity = si_quantity transactionData,
                   td_batch_number = si_batch_number transactionData,
                   td_expiration_date = si_expiration_date transactionData,
                   td_notes = si_notes transactionData\<rparr>
                  userId (Some sessionId) s))"

text \<open>\<^verbatim>\<open>UPDATE sessions SET status = ?, completed_at = CURRENT_TIMESTAMP WHERE id = ?\<close>.\<close>

definition update_session_status :: "ident \<Rightarrow> string \<Rightarrow> db \<Rightarrow> db" where
  "update_session_status sid st s =
     s\<lparr>sessions := map (\<lambda>x. if sess_id x = sid then x\<lparr>status := st\<rparr> else x) (sessions s)\<rparr>"

definition completeSession :: "ident \<Rightarrow> ident \<Rightarrow> db \<Rightarrow> (error + session option) \<times> db" where
  "completeSession sessionId userId s =
     (case getSessionById s sessionId of
        None \<Rightarrow> (Inl SessionNotFound, s)
      | Some sess \<Rightarrow>
          if status sess \<noteq> ''in_progress'' then (Inl SessionAlreadyClosed, s)
          else
            (let s1 = update_session_status sessionId ''completed'' s
             in (Inr (getSessionById s1 sessionId), s1)))"

text \<open>The loop of \<^verbatim>\<open>cancelSession\<close> over the session's transactions.\<close>

fun reverse_transactions :: "inventory_transaction list \<Rightarrow> db \<Rightarrow> db" where
  "reverse_transactions [] s = s"
| "reverse_transactions (t # ts) s =
     reverse_transactions ts
       (if transaction_type t = ''check_in''
        then update_quantity_add (trx_product_id t) (destination_location_id t)
               (- trx_quantity t) s
        else if transaction_type t = ''check_out''
        then update_quantity_add (trx_product_id t) (source_location_id t) (trx_quantity t) s
        else s)"

definition cancelSession :: "ident \<Rightarrow> ident \<Rightarrow> db \<Rightarrow> (error + session option) \<times> db" where
  "cancelSession sessionId userId s =
     (case getSessionById s sessionId of
        None \<Rightarrow> (Inl SessionNotFound, s)
      | Some sess \<Rightarrow>
          if status sess \<noteq> ''in_progress'' then (Inl SessionAlreadyClosed, s)
          else
            (let transactions = getSessionTransactions s sessionId;
                 s1 = reverse_transactions transactions s;
                 s2 = update_session_status sessionId ''cancelled'' s1
             in (Inr (getSessionById s2 sessionId), s2)))"

section \<open>Ledger and cache\<close>

text \<open>
  The quantity cached for a (product, location) pair: that of the inventory row which
  \<^verbatim>\<open>fetchOne\<close> finds, and 0 when the pair has no row.
\<close>

definition cached_quantity :: "db \<Rightarrow> ident \<Rightarrow> ident \<Rightarrow> int" where
  "cached_quantity s p l =
     (case select_inventory s (Some p) l of None \<Rightarrow> 0 | Some r \<Rightarrow> quantity r)"

text \<open>
  The signed quantity with which a ledger row affects a (product, location) pair, read off
  the specification of the movement kinds: a check-in counts towards its destination, a
  check-out against its source, a transfer against its source and towards its destination,
  and an adjustment against the location logged as source (a decrease) or towards the one
  logged as destination (an increase). Rows of other products or of no product, or of an
  unknown kind, do not affect the pair.
\<close>

definition signed_quantity :: "inventory_transaction \<Rightarrow> ident \<Rightarrow> ident \<Rightarrow> int" where
  "signed_quantity t p l =
     (if trx_product_id t \<noteq> Some p then 0
      else
        (if transaction_type t \<in> {''check_in'', ''transfer'', ''adjustment''}
            \<and> destination_location_id t = Some l then trx_quantity t else 0)
        - (if transaction_type t \<in> {''check_out'', ''transfer'', ''adjustment''}
              \<and> source_location_id t = Some l then trx_quantity t else 0))"

definition ledger_balance :: "db \<Rightarrow> ident \<Rightarrow> ident \<Rightarrow> int" where
  "ledger_balance s p l = sum_list (map (\<lambda>t. signed_quantity t p l) (inventory_transactions s))"

text \<open>
  The write operations of the engine, each with the arguments of its call, and sequences of
  them. A sequence is successful when no operation in it throws; \<open>run_ops\<close> then yields
  the database it leaves, and \<open>None\<close> otherwise.
\<close>

datatype engine_op =
    RecordTransaction ident transaction_data ident "ident option"
  | SetQuantity ident ident ident int ident

fun run_op :: "engine_op \<Rightarrow> db \<Rightarrow> error option \<times> db" where
  "run_op (RecordTransaction tid d userId sessionId) s =
     (case createInventoryTransaction tid d userId sessionId s of
        (Inl e, s') \<Rightarrow> (Some e, s')
      | (Inr created, s') \<Rightarrow> (None, s'))"
| "run_op (SetQuantity tid productId locationId qty userId) s =
     (case updateInventoryQuantity tid productId locationId qty userId s of
        (Inl e, s') \<Rightarrow> (Some e, s')
      | (Inr row, s') \<Rightarrow> (None, s'))"

fun run_ops :: "engine_op list \<Rightarrow> db \<Rightarrow> db option" where
  "run_ops [] s = Some s"
| "run_ops (x # xs) s =
     (case run_op x s of
        (Some e, s') \<Rightarrow> None
      | (None, s') \<Rightarrow> run_ops xs s')"

text \<open>
  The movements for which the ledger can account: a location the call passes is a proper
  (non-empty) identifier, and the call is a check-in, a check-out, or a transfer that
  passes both its source and its destination.
\<close>

definition movement :: "transaction_data \<Rightarrow> bool" where
  "movement d =
     (td_source_location_id d \<noteq> Val [] \<and> td_destination_location_id d \<noteq> Val []
      \<and> (td_transaction_type d = ''check_in''
         \<or> td_transaction_type d = ''check_out''
         \<or> td_transaction_type d = ''transfer''
             \<and> sql_value (td_source_location_id d) \<noteq> None
             \<and> sql_value (td_destination_location_id d) \<noteq> None))"

fun engine_movement :: "engine_op \<Rightarrow> bool" where
  "engine_movement (RecordTransaction tid d userId sessionId) = movement d"
| "engine_movement (SetQuantity tid productId locationId qty userId) = True"

section \<open>Sessions and their transactions\<close>

text \<open>
  What a session has checked in to, and checked out of, a (product, location) pair: the
  quantities of the ledger rows logged under the session, by kind.
\<close>

definition session_checked_in :: "db \<Rightarrow> ident \<Rightarrow> ident \<Rightarrow> ident \<Rightarrow> int" where
  "session_checked_in s sid p l =
     sum_list [trx_quantity t. t \<leftarrow> inventory_transactions s, session_id t = Some sid,
                 transaction_type t = ''check_in'',
                 trx_product_id t = Some p \<and> destination_location_id t = Some l]"

definition session_checked_out :: "db \<Rightarrow> ident \<Rightarrow> ident \<Rightarrow> ident \<Rightarrow> int" where
  "session_checked_out s sid p l =
     sum_list [trx_quantity t. t \<leftarrow> inventory_transactions s, session_id t = Some sid,
                 transaction_type t = ''check_out'',
                 trx_product_id t = Some p \<and> source_location_id t = Some l]"

text \<open>The amount that one pass of the cancellation loop adds to a pair's quantity.\<close>

definition reversal :: "inventory_transaction \<Rightarrow> ident \<Rightarrow> ident \<Rightarrow> int" where
  "reversal t p l =
     (if transaction_type t = ''check_in''
      then (if trx_product_id t = Some p \<and> destination_location_id t = Some l
            then - trx_quantity t else 0)
      else if transaction_type t = ''check_out''
      then (if trx_product_id t = Some p \<and> source_location_id t = Some l
            then trx_quantity t else 0)
      else 0)"

text \<open>The number of rows that the product table holds under an id.\<close>

definition product_rows :: "db \<Rightarrow> ident \<Rightarrow> nat" where
  "product_rows s p = length (filter (\<lambda>x. prod_id x = p) (products s))"

text \<open>
  Every write operation modelled here, and the database it leaves behind whether it
  returns or throws.
\<close>

datatype operation =
    Engine engine_op
  | CreateProduct ident product_data ident
  | CreateSession ident session_data ident
  | AddProductToSession ident ident session_item ident
  | CompleteSession ident ident
  | CancelSession ident ident

fun db_after :: "operation \<Rightarrow> db \<Rightarrow> db" where
  "db_after (Engine x) s = snd (run_op x s)"
| "db_after (CreateProduct pid productData userId) s = snd (createProduct pid productData userId s)"
| "db_after (CreateSession sid sessionData userId) s = snd (createSession sid sessionData userId s)"
| "db_after (AddProductToSession tid sessionId item userId) s =
     snd (addProductToSession tid sessionId item userId s)"
| "db_after (CompleteSession sessionId userId) s = snd (completeSession sessionId userId s)"
| "db_after (CancelSession sessionId userId) s = snd (cancelSession sessionId userId s)"

text \<open>The product and the location of an inventory row.\<close>

definition row_key :: "inventory_row \<Rightarrow> ident option \<times> ident" where
  "row_key i = (inv_product_id i, inv_location_id i)"

section \<open>Example databases and calls\<close>

text \<open>
  A transaction object, and the item of a session, whose caller names a product and
  passes \<^verbatim>\<open>null\<close> for the batch number, the expiration date and the notes.
\<close>

definition plain_transaction ::
    "string \<Rightarrow> ident \<Rightarrow> ident js \<Rightarrow> ident js \<Rightarrow> int \<Rightarrow> transaction_data" where
  "plain_transaction kind p src dst q =
     \<lparr>td_transaction_type = kind, td_product_id = Val p, td_source_location_id = src,
      td_destination_location_id = dst, td_quantity = q,
      td_batch_number = Null, td_expiration_date = Null, td_notes = Null\<rparr>"

definition plain_item :: "ident \<Rightarrow> int \<Rightarrow> session_item" where
  "plain_item p q = \<lparr>si_product_id = Val p, si_quantity = q,
                     si_batch_number = Null, si_expiration_date = Null, si_notes = Null\<rparr>"

text \<open>
  The cellar before any stock has arrived: one active product with a minimum stock of 5
  and two locations, on an engine that enforces foreign keys. The shop is the cellar
  after a check-in of 10 units into the first location.
\<close>

definition wine :: product where
  "wine = \<lparr>prod_id = ''prod-1'', prod_name = ''Test Wine'', barcode = Some ''0001'',
           description = None, category_id = None, minimum_stock = Some 5, is_active = True\<rparr>"

definition cellar :: db where
  "cellar = \<lparr>foreign_keys = True, products = [wine], categories = [],
               locations = [\<lparr>loc_id = ''loc-1''\<rparr>, \<lparr>loc_id = ''loc-2''\<rparr>],
               inventory = [], inventory_transactions = [], sessions = []\<rparr>"

definition shop :: db where
  "shop =
     cellar\<lparr>inventory :=
                [\<lparr>inv_product_id = Some ''prod-1'', inv_location_id = ''loc-1'', quantity = 10\<rparr>],
              inventory_transactions :=
                [\<lparr>trx_id = ''trx-0'', transaction_type = ''check_in'',
                  trx_product_id = Some ''prod-1'', source_location_id = None,
                  destination_location_id = Some ''loc-1'', trx_quantity = 10,
                  created_by = ''usr-1'', session_id = None\<rparr>]\<rparr>"

text \<open>
  The cellar with 12 units on the shelf that no ledger row accounts for, which is how the
  sample rows of the schema file stock their products; a day of movements there, and the
  database at its end.
\<close>

definition sampled :: db where
  "sampled =
     cellar\<lparr>inventory :=
                [\<lparr>inv_product_id = Some ''prod-1'', inv_location_id = ''loc-1'', quantity = 12\<rparr>]\<rparr>"

definition day_ops :: "engine_op list" where
  "day_ops =
     [RecordTransaction ''trx-1''
        (plain_transaction ''check_in'' ''prod-1'' Null (Val ''loc-1'') 6) ''usr-1'' None,
      RecordTransaction ''trx-2''
        (plain_transaction ''check_out'' ''prod-1'' (Val ''loc-1'') Null 4) ''usr-1'' None,
      RecordTransaction ''trx-3''
        (plain_transaction ''transfer'' ''prod-1'' (Val ''loc-1'') (Val ''loc-2'') 3)
        ''usr-1'' None]"

definition day_end :: db where
  "day_end =
     cellar\<lparr>inventory :=
        [\<lparr>inv_product_id = Some ''prod-1'', inv_location_id = ''loc-1'', quantity = 11\<rparr>,
         \<lparr>inv_product_id = Some ''prod-1'', inv_location_id = ''loc-2'', quantity = 3\<rparr>],
      inventory_transactions :=
        [\<lparr>trx_id = ''trx-1'', transaction_type = ''check_in'', trx_product_id = Some ''prod-1'',
          source_location_id = None, destination_location_id = Some ''loc-1'',
          trx_quantity = 6, created_by = ''usr-1'', session_id = None\<rparr>,
         \<lparr>trx_id = ''trx-2'', transaction_type = ''check_out'', trx_product_id = Some ''prod-1'',
          source_location_id = Some ''loc-1'', destination_location_id = None,
          trx_quantity = 4, created_by = ''usr-1'', session_id = None\<rparr>,
         \<lparr>trx_id = ''trx-3'', transaction_type = ''transfer'', trx_product_id = Some ''prod-1'',
          source_location_id = Some ''loc-1'', destination_location_id = Some ''loc-2'',
          trx_quantity = 3, created_by = ''usr-1'', session_id = None\<rparr>]\<rparr>"

text \<open>
  Checking 10 units in to a pair of the empty cellar and then recording a transfer of 3
  that names the pair as its source and no destination; and the database this leaves.
\<close>

definition half_transfer :: "engine_op list" where
  "half_transfer =
     [RecordTransaction ''trx-1''
        (plain_transaction ''check_in'' ''prod-1'' Null (Val ''loc-1'') 10) ''usr-1'' None,
      RecordTransaction ''trx-2''
        (plain_transaction ''transfer'' ''prod-1'' (Val ''loc-1'') Null 3) ''usr-1'' None]"

definition half_transfer_end :: db where
  "half_transfer_end =
     cellar\<lparr>inventory :=
        [\<lparr>inv_product_id = Some ''prod-1'', inv_location_id = ''loc-1'', quantity = 10\<rparr>],
      inventory_transactions :=
        [\<lparr>trx_id = ''trx-1'', transaction_type = ''check_in'', trx_product_id = Some ''prod-1'',
          source_location_id = None, destination_location_id = Some ''loc-1'',
          trx_quantity = 10, created_by = ''usr-1'', session_id = None\<rparr>,
         \<lparr>trx_id = ''trx-2'', transaction_type = ''transfer'', trx_product_id = Some ''prod-1'',
          source_location_id = Some ''loc-1'', destination_location_id = None,
          trx_quantity = 3, created_by = ''usr-1'', session_id = None\<rparr>]\<rparr>"

text \<open>
  The shop during a check-in session that has so far received 5 and then 3 units, and the
  shop with a session that was completed earlier.
\<close>

definition receiving_session :: session where
  "receiving_session = \<lparr>sess_id = ''sess-1'', session_type = ''check_in'',
                        status = ''in_progress'', sess_location_id = Some ''loc-1''\<rparr>"

definition receiving :: db where
  "receiving =
     shop\<lparr>inventory :=
            [\<lparr>inv_product_id = Some ''prod-1'', inv_location_id = ''loc-1'', quantity = 18\<rparr>],
          inventory_transactions := inventory_transactions shop @
            [\<lparr>trx_id = ''trx-1'', transaction_type = ''check_in'', trx_product_id = Some ''prod-1'',
              source_location_id = None, destination_location_id = Some ''loc-1'',
              trx_quantity = 5, created_by = ''usr-1'', session_id = Some ''sess-1''\<rparr>,
             \<lparr>trx_id = ''trx-2'', transaction_type = ''check_in'', trx_product_id = Some ''prod-1'',
              source_location_id = None, destination_location_id = Some ''loc-1'',
              trx_quantity = 3, created_by = ''usr-1'', session_id = Some ''sess-1''\<rparr>],
          sessions := [receiving_session]\<rparr>"

definition finished_session :: session where
  "finished_session = \<lparr>sess_id = ''sess-2'', session_type = ''check_out'',
                       status = ''completed'', sess_location_id = Some ''loc-1''\<rparr>"

definition after_hours :: db where
  "after_hours = shop\<lparr>sessions := [finished_session]\<rparr>"

text \<open>
  The cellar with the check-in session open, and the same after the session has received
  5 units under a call that passed \<^verbatim>\<open>null\<close> for the product.
\<close>

definition opened :: db where
  "opened = cellar\<lparr>sessions := [receiving_session]\<rparr>"

definition opened_received :: db where
  "opened_received =
     opened\<lparr>inventory :=
              [\<lparr>inv_product_id = None, inv_location_id = ''loc-1'', quantity = 5\<rparr>],
            inventory_transactions :=
              [\<lparr>trx_id = ''trx-1'', transaction_type = ''check_in'', trx_product_id = None,
                source_location_id = None, destination_location_id = Some ''loc-1'',
                trx_quantity = 5, created_by = ''usr-1'', session_id = Some ''sess-1''\<rparr>]\<rparr>"

text \<open>
  The shop with its product withdrawn from sale (soft-deleted) while 3 units, below the
  minimum of 5, are still on the shelf; and the shop with exactly the minimum on the shelf.
\<close>

definition withdrawn :: db where
  "withdrawn =
     shop\<lparr>products := [wine\<lparr>is_active := False\<rparr>],
          inventory :=
            [\<lparr>inv_product_id = Some ''prod-1'', inv_location_id = ''loc-1'', quantity = 3\<rparr>]\<rparr>"

definition at_minimum :: db where
  "at_minimum =
     shop\<lparr>inventory :=
            [\<lparr>inv_product_id = Some ''prod-1'', inv_location_id = ''loc-1'', quantity = 5\<rparr>]\<rparr>"

text \<open>
  Four products to be created: one with the barcode of the shop's product, one with a
  new barcode, one with the empty string for a barcode, and one without a barcode.
\<close>

definition same_label :: product_data where
  "same_label = \<lparr>pd_name = Some ''Same label'', pd_barcode = Some ''0001'',
                 pd_description = None, pd_category_id = None, pd_unit_price = Some 2599,
                 pd_unit_cost = Some 1550, pd_minimum_stock = Some 0\<rparr>"

definition new_label :: product_data where
  "new_label = same_label\<lparr>pd_name := Some ''New label'', pd_barcode := Some ''0002''\<rparr>"

definition blank_label :: product_data where
  "blank_label = same_label\<lparr>pd_name := Some ''Blank label'', pd_barcode := Some []\<rparr>"

definition no_label :: product_data where
  "no_label = same_label\<lparr>pd_name := Some ''No label'', pd_barcode := None\<rparr>"

text \<open>The filters of a plain low-stock query, and a \<^verbatim>\<open>LIKE\<close> that is never consulted by it.\<close>

definition low_stock_only :: inventory_filters where
  "low_stock_only = \<lparr>flt_locationId = None, flt_categoryId = None, flt_search = None,
                     flt_lowStock = True, flt_limit = None, flt_offset = None\<rparr>"

definition no_like :: "string option \<Rightarrow> string \<Rightarrow> bool" where
  "no_like v pat = False"

section \<open>Reading and writing the inventory table\<close>

lemma sql_eq_Some [simp]: "sql_eq (Some a) (Some b) = (a = b)"
  by (auto simp: sql_eq_def)

lemma sql_eq_None [simp]: "sql_eq a None = False" "sql_eq None b = False"
  by (simp_all add: sql_eq_def split: option.splits)

lemma sql_eq_col [simp]: "sql_eq a (Some b) = (a = Some b)"
  by (cases a) auto

lemma js_truthy_iff: "js_truthy v = (\<exists>x. v = Val x \<and> x \<noteq> [])"
  by (cases v) (simp_all add: js_truthy_def truthy_def)

lemma update_quantity_add_null:
  "update_quantity_add None l d s = s" "update_quantity_add p None d s = s"
  by (simp_all add: update_quantity_add_def)

lemma find_map_same:
  "find (\<lambda>r. inv_product_id r = Some p \<and> inv_location_id r = l)
     (map (\<lambda>r. if inv_product_id r = Some p \<and> inv_location_id r = l
                then r\<lparr>quantity := g r\<rparr> else r) xs)
   = map_option (\<lambda>r. r\<lparr>quantity := g r\<rparr>)
       (find (\<lambda>r. inv_product_id r = Some p \<and> inv_location_id r = l) xs)"
  by (induction xs) auto

lemma find_map_other:
  "\<not> (p' = p \<and> l' = l) \<Longrightarrow>
   find (\<lambda>r. inv_product_id r = Some p' \<and> inv_location_id r = l')
     (map (\<lambda>r. if inv_product_id r = Some p \<and> inv_location_id r = l
                then r\<lparr>quantity := g r\<rparr> else r) xs)
   = find (\<lambda>r. inv_product_id r = Some p' \<and> inv_location_id r = l') xs"
  by (induction xs) auto

lemma find_snoc:
  "find P (xs @ [x]) = (case find P xs of Some r \<Rightarrow> Some r | None \<Rightarrow> if P x then Some x else None)"
  by (induction xs) auto

lemma select_null [simp]: "select_inventory s None l = None"
  by (simp add: select_inventory_def find_None_iff)

lemma select_update_add:
  "select_inventory (update_quantity_add (Some p) (Some l) d s) (Some p') l' =
     (if p' = p \<and> l' = l
      then map_option (\<lambda>r. r\<lparr>quantity := quantity r + d\<rparr>) (select_inventory s (Some p) l)
      else select_inventory s (Some p') l')"
  using find_map_same [of p l "\<lambda>r. quantity r + d" "inventory s"]
        find_map_other [of p' p l' l "\<lambda>r. quantity r + d" "inventory s"]
  by (simp add: select_inventory_def update_quantity_add_def)

lemma select_update_add_opt:
  "select_inventory (update_quantity_add po lo d s) (Some p') l' =
     (if po = Some p' \<and> lo = Some l'
      then map_option (\<lambda>r. r\<lparr>quantity := quantity r + d\<rparr>) (select_inventory s (Some p') l')
      else select_inventory s (Some p') l')"
  by (cases po; cases lo) (auto simp: update_quantity_add_null select_update_add)

lemma select_update_set:
  "select_inventory (update_quantity_set p l q s) (Some p') l' =
     (if p' = p \<and> l' = l
      then map_option (\<lambda>r. r\<lparr>quantity := q\<rparr>) (select_inventory s (Some p) l)
      else select_inventory s (Some p') l')"
  using find_map_same [of p l "\<lambda>r. q" "inventory s"]
        find_map_other [of p' p l' l "\<lambda>r. q" "inventory s"]
  by (simp add: select_inventory_def update_quantity_set_def)

lemma select_insert:
  "select_inventory (append_inventory po l q s) (Some p') l' =
     (case select_inventory s (Some p') l' of
        Some r \<Rightarrow> Some r
      | None \<Rightarrow> if po = Some p' \<and> l' = l
                then Some \<lparr>inv_product_id = po, inv_location_id = l, quantity = q\<rparr> else None)"
  by (auto simp: select_inventory_def append_inventory_def find_snoc split: option.splits)

lemma select_append_transaction [simp]:
  "select_inventory (append_transaction row s) p l = select_inventory s p l"
  by (simp add: select_inventory_def append_transaction_def)

lemma cached_update_add:
  "cached_quantity (update_quantity_add po (Some l) d s) p' l' =
     (if po = Some p' \<and> l' = l \<and> select_inventory s po l \<noteq> None
      then cached_quantity s p' l + d else cached_quantity s p' l')"
  by (auto simp: cached_quantity_def select_update_add_opt split: option.splits)

lemma cached_update_set:
  "cached_quantity (update_quantity_set p l q s) p' l' =
     (if p' = p \<and> l' = l \<and> select_inventory s (Some p) l \<noteq> None
      then q else cached_quantity s p' l')"
  by (auto simp: cached_quantity_def select_update_set split: option.splits)

lemma cached_insert:
  "select_inventory s po l = None \<Longrightarrow>
   cached_quantity (append_inventory po l q s) p' l' =
     (if po = Some p' \<and> l' = l then q else cached_quantity s p' l')"
  by (auto simp: cached_quantity_def select_insert split: option.splits)

lemma cached_append_transaction [simp]:
  "cached_quantity (append_transaction row s) p l = cached_quantity s p l"
  by (simp add: cached_quantity_def)

lemma cached_absent: "select_inventory s (Some p) l = None \<Longrightarrow> cached_quantity s p l = 0"
  by (simp add: cached_quantity_def)

lemma ledger_update_add [simp]:
  "inventory_transactions (update_quantity_add p l d s) = inventory_transactions s"
  by (simp add: update_quantity_add_def)

lemma ledger_update_set [simp]:
  "inventory_transactions (update_quantity_set p l q s) = inventory_transactions s"
  by (simp add: update_quantity_set_def)

lemma ledger_append_inventory [simp]:
  "inventory_transactions (append_inventory p l q s) = inventory_transactions s"
  by (simp add: append_inventory_def)

lemma ledger_append_transaction [simp]:
  "inventory_transactions (append_transaction row s) = inventory_transactions s @ [row]"
  by (simp add: append_transaction_def)

lemma insert_inventory_Inr:
  "insert_inventory p l q s = Inr s' \<Longrightarrow> s' = append_inventory p l q s"
  by (simp add: insert_inventory_def split: if_splits)

lemma insert_transaction_Inr:
  "insert_transaction tid d userId sessionId s = Inr s' \<Longrightarrow>
   bindable d \<and> transaction_accepted (transaction_row tid d userId sessionId) s
   \<and> s' = append_transaction (transaction_row tid d userId sessionId) s"
  by (simp add: insert_transaction_def split: if_splits)

lemma ledger_check_in:
  "updateInventoryForCheckIn p l q s = Inr s' \<Longrightarrow>
   inventory_transactions s' = inventory_transactions s"
  by (auto simp: updateInventoryForCheckIn_def split: option.splits dest: insert_inventory_Inr)

lemma ledger_check_out:
  "updateInventoryForCheckOut p l q s = Inr s' \<Longrightarrow>
   inventory_transactions s' = inventory_transactions s"
  by (auto simp: updateInventoryForCheckOut_def split: option.splits if_splits)

lemma ledger_transfer:
  "updateInventoryForTransfer p src dst q s = Inr s' \<Longrightarrow>
   inventory_transactions s' = inventory_transactions s"
  by (auto simp: updateInventoryForTransfer_def Let_def split: option.splits if_splits
           dest: insert_inventory_Inr)

lemma balance_from_ledger:
  "inventory_transactions s' = inventory_transactions s \<Longrightarrow> ledger_balance s' = ledger_balance s"
  by (simp add: ledger_balance_def fun_eq_iff)

lemma balance_append_transaction:
  "ledger_balance (append_transaction row s) p l = ledger_balance s p l + signed_quantity row p l"
  by (simp add: ledger_balance_def)

lemma cached_check_in:
  "updateInventoryForCheckIn po l q s = Inr s' \<Longrightarrow>
   cached_quantity s' p' l' = cached_quantity s p' l' + (if po = Some p' \<and> l' = l then q else 0)"
  by (cases "select_inventory s po l")
     (auto simp: updateInventoryForCheckIn_def cached_insert cached_update_add cached_absent
           dest!: insert_inventory_Inr)

lemma cached_check_out:
  "updateInventoryForCheckOut po l q s = Inr s' \<Longrightarrow>
   cached_quantity s' p' l' = cached_quantity s p' l' - (if po = Some p' \<and> l' = l then q else 0)"
  by (auto simp: updateInventoryForCheckOut_def cached_update_add
           split: option.splits if_splits)

lemma cached_transfer:
  assumes "updateInventoryForTransfer po src dst q s = Inr s'"
  shows "cached_quantity s' p' l' =
     cached_quantity s p' l' - (if po = Some p' \<and> l' = src then q else 0)
       + (if po = Some p' \<and> l' = dst then q else 0)"
proof (cases po)
  case None
  with assms show ?thesis by (simp add: updateInventoryForTransfer_def)
next
  case (Some p)
  with assms show ?thesis
    by (auto simp: updateInventoryForTransfer_def Let_def cached_update_add cached_insert
                   cached_absent select_update_add
             split: option.splits if_splits dest!: insert_inventory_Inr)
qed

lemma rejected_row_writes_nothing:
  "\<not> transaction_accepted (transaction_row tid d userId sessionId) s \<Longrightarrow>
   createInventoryTransaction tid d userId sessionId s
     = (Inl (if bindable d then ConstraintFailed else UndefinedParameter), s)"
  by (simp add: createInventoryTransaction_def insert_transaction_def)

lemma unbound_call_writes_nothing:
  "\<not> bindable d \<Longrightarrow>
   createInventoryTransaction tid d userId sessionId s = (Inl UndefinedParameter, s)"
  by (simp add: createInventoryTransaction_def insert_transaction_def)

lemma adjustment_row_only:
  "td_transaction_type d = ''adjustment'' \<Longrightarrow> bindable d \<Longrightarrow>
   transaction_accepted (transaction_row tid d userId sessionId) s \<Longrightarrow>
   createInventoryTransaction tid d userId sessionId s =
     (Inr (getTransactionById (append_transaction (transaction_row tid d userId sessionId) s) tid),
      append_transaction (transaction_row tid d userId sessionId) s)"
  by (simp add: createInventoryTransaction_def insert_transaction_def)

lemma ledger_createInventoryTransaction:
  "bindable d \<Longrightarrow> transaction_accepted (transaction_row tid d userId sessionId) s \<Longrightarrow>
   inventory_transactions (snd (createInventoryTransaction tid d userId sessionId s))
   = inventory_transactions s @ [transaction_row tid d userId sessionId]"
  by (auto simp: createInventoryTransaction_def insert_transaction_def
           split: sum.splits dest: ledger_check_in ledger_check_out ledger_transfer)

lemma returned_row_was_inserted:
  "createInventoryTransaction tid d userId sessionId s = (Inr created, s') \<Longrightarrow>
   insert_transaction tid d userId sessionId s
     = Inr (append_transaction (transaction_row tid d userId sessionId) s)"
  by (auto simp: createInventoryTransaction_def split: sum.splits dest: insert_transaction_Inr)

lemma returned_row_was_bound:
  "createInventoryTransaction tid d userId sessionId s = (Inr created, s') \<Longrightarrow> bindable d"
  by (auto simp: createInventoryTransaction_def insert_transaction_def split: if_splits)

lemma fk_holds_append_transaction [simp]:
  "fk_holds (append_transaction row s) = fk_holds s"
  by (simp add: fk_holds_def append_transaction_def fun_eq_iff)

lemma check_in_is_accepted:
  assumes "transaction_accepted (transaction_row tid d userId sessionId) s"
    and "td_destination_location_id d = Val dst"
  shows "\<exists>s2. updateInventoryForCheckIn (sql_value (td_product_id d)) dst q
                (append_transaction (transaction_row tid d userId sessionId) s) = Inr s2"
proof (cases "select_inventory s (sql_value (td_product_id d)) dst")
  case None
  then have "\<forall>r \<in> set (inventory s).
      \<not> (sql_eq (inv_product_id r) (sql_value (td_product_id d)) \<and> inv_location_id r = dst)"
    by (simp add: select_inventory_def find_None_iff)
  with assms have "inventory_accepted (sql_value (td_product_id d)) dst
                     (append_transaction (transaction_row tid d userId sessionId) s)"
    by (auto simp: inventory_accepted_def transaction_accepted_def transaction_row_def
                   append_transaction_def fk_holds_def split: if_splits)
  with None show ?thesis
    by (simp add: updateInventoryForCheckIn_def insert_inventory_def)
next
  case (Some existing)
  then show ?thesis by (simp add: updateInventoryForCheckIn_def)
qed

text \<open>
  What \<^verbatim>\<open>updateInventoryQuantity\<close> does in each of its branches: the quantity is written,
  and the call that is to log the adjustment then fails at the binding of its parameters.
\<close>

lemma set_quantity_writes:
  "updateInventoryQuantity tid p l q userId s =
     (case select_inventory s (Some p) l of
        Some existing \<Rightarrow> (Inl UndefinedParameter, update_quantity_set p l q s)
      | None \<Rightarrow>
          if inventory_accepted (Some p) l s
          then (Inl UndefinedParameter, append_inventory (Some p) l q s)
          else (Inl ConstraintFailed, s))"
  by (simp add: updateInventoryQuantity_def Let_def insert_inventory_def
                unbound_call_writes_nothing bindable_def
           split: option.splits)

lemma set_quantity_throws: "fst (updateInventoryQuantity tid p l q userId s) \<noteq> Inr r"
  by (simp add: set_quantity_writes split: option.splits)

lemma set_quantity_stores:
  assumes "select_inventory s (Some p) l \<noteq> None \<or> inventory_accepted (Some p) l s"
  shows "cached_quantity (snd (updateInventoryQuantity tid p l q userId s)) p l = q"
  using assms
  by (auto simp: set_quantity_writes cached_update_set cached_insert split: option.splits)

section \<open>The ledger and the cached quantities\<close>

lemma record_transaction_delta:
  assumes mv: "movement d"
    and run: "createInventoryTransaction tid d userId sessionId s = (Inr created, s')"
  shows "cached_quantity s' p l - cached_quantity s p l
         = ledger_balance s' p l - ledger_balance s p l"
proof -
  let ?row = "transaction_row tid d userId sessionId"
  let ?s1 = "append_transaction ?row s"
  let ?po = "sql_value (td_product_id d)"
  note ins = returned_row_was_inserted [OF run]
  from mv consider
      (check_in) dst where "td_transaction_type d = ''check_in''"
        "td_destination_location_id d = Val dst" "dst \<noteq> []"
    | (no_destination) "td_transaction_type d = ''check_in''"
        "sql_value (td_destination_location_id d) = None"
    | (check_out) src where "td_transaction_type d = ''check_out''"
        "td_source_location_id d = Val src" "src \<noteq> []"
    | (no_source) "td_transaction_type d = ''check_out''"
        "sql_value (td_source_location_id d) = None"
    | (transfer) src dst where "td_transaction_type d = ''transfer''"
        "td_source_location_id d = Val src" "src \<noteq> []"
        "td_destination_location_id d = Val dst" "dst \<noteq> []"
    by (cases "td_source_location_id d"; cases "td_destination_location_id d")
       (auto simp: movement_def)
  then show ?thesis
  proof cases
    case check_in
    from run check_in
    have step: "updateInventoryForCheckIn ?po dst (td_quantity d) ?s1 = Inr s'"
      by (auto simp: createInventoryTransaction_def ins js_truthy_iff split: sum.splits)
    have "ledger_balance s' = ledger_balance ?s1"
      by (rule balance_from_ledger) (rule ledger_check_in [OF step])
    then show ?thesis
      using check_in
      by (auto simp: cached_check_in [OF step] balance_append_transaction signed_quantity_def
                     transaction_row_def)
  next
    case no_destination
    from run no_destination have s': "s' = ?s1"
      by (auto simp: createInventoryTransaction_def ins js_truthy_def truthy_def)
    show ?thesis
      unfolding s' using no_destination
      by (auto simp: balance_append_transaction signed_quantity_def transaction_row_def)
  next
    case check_out
    from run check_out
    have step: "updateInventoryForCheckOut ?po src (td_quantity d) ?s1 = Inr s'"
      by (auto simp: createInventoryTransaction_def ins js_truthy_iff split: sum.splits)
    have "ledger_balance s' = ledger_balance ?s1"
      by (rule balance_from_ledger) (rule ledger_check_out [OF step])
    then show ?thesis
      using check_out
      by (auto simp: cached_check_out [OF step] balance_append_transaction signed_quantity_def
                     transaction_row_def)
  next
    case no_source
    from run no_source have s': "s' = ?s1"
      by (auto simp: createInventoryTransaction_def ins js_truthy_def truthy_def)
    show ?thesis
      unfolding s' using no_source
      by (auto simp: balance_append_transaction signed_quantity_def transaction_row_def)
  next
    case transfer
    from run transfer
    have step: "updateInventoryForTransfer ?po src dst (td_quantity d) ?s1 = Inr s'"
      by (auto simp: createInventoryTransaction_def ins js_truthy_iff split: sum.splits)
    have "ledger_balance s' = ledger_balance ?s1"
      by (rule balance_from_ledger) (rule ledger_transfer [OF step])
    then show ?thesis
      using transfer
      by (auto simp: cached_transfer [OF step] balance_append_transaction signed_quantity_def
                     transaction_row_def)
  qed
qed

lemma run_op_delta:
  assumes "engine_movement x" and "run_op x s = (None, s')"
  shows "cached_quantity s' p l - cached_quantity s p l
         = ledger_balance s' p l - ledger_balance s p l"
proof (cases x)
  case (RecordTransaction tid d userId sessionId)
  with assms obtain created where
    "createInventoryTransaction tid d userId sessionId s = (Inr created, s')" and "movement d"
    by (auto split: prod.splits sum.splits)
  then show ?thesis by (auto dest: record_transaction_delta)
next
  case (SetQuantity tid productId locationId qty userId)
  with assms(2) set_quantity_throws [of tid productId locationId qty userId s]
  show ?thesis by (auto split: prod.splits sum.splits)
qed

lemma run_ops_delta:
  "list_all engine_movement xs \<Longrightarrow> run_ops xs s = Some s' \<Longrightarrow>
   cached_quantity s' p l - cached_quantity s p l = ledger_balance s' p l - ledger_balance s p l"
proof (induction xs arbitrary: s)
  case Nil
  then show ?case by simp
next
  case (Cons x xs)
  from Cons.prems(2) obtain s1 where step: "run_op x s = (None, s1)"
      and rest: "run_ops xs s1 = Some s'"
    by (auto split: prod.splits option.splits)
  from Cons.prems(1) step
  have "cached_quantity s1 p l - cached_quantity s p l
        = ledger_balance s1 p l - ledger_balance s p l"
    by (auto dest: run_op_delta)
  moreover from Cons.IH [OF _ rest] Cons.prems(1)
  have "cached_quantity s' p l - cached_quantity s1 p l
        = ledger_balance s' p l - ledger_balance s1 p l"
    by simp
  ultimately show ?case by linarith
qed

lemmas engine_defs =
  updateInventoryQuantity_def createInventoryTransaction_def insert_transaction_def
  bindable_def plain_transaction_def js_truthy_def
  transaction_accepted_def append_transaction_def insert_inventory_def
  inventory_accepted_def append_inventory_def fk_holds_def transaction_row_def truthy_def
  select_inventory_def getTransactionById_def select_inventory_joined_def
  updateInventoryForCheckIn_def updateInventoryForCheckOut_def
  updateInventoryForTransfer_def update_quantity_add_def update_quantity_set_def

text \<open>
  Claim C2, as stated: after every successful sequence of engine operations (recording
  check-in, check-out and transfer transactions, and setting a quantity) that contains no
  session cancellation, the cached quantity of every (product, location) pair equals the
  signed sum of the ledger rows affecting it. It fails for a transfer that names no
  destination: the call returns normally and logs its row, but the guard of the transfer
  branch wants both locations, so nothing leaves the source. In the empty cellar, after a
  check-in of 10 units and such a transfer of 3, the cache holds 10 and the ledger adds up
  to 7.
\<close>

theorem one_sided_transfer_moves_nothing:
  "run_ops half_transfer cellar = Some half_transfer_end
   \<and> cached_quantity half_transfer_end ''prod-1'' ''loc-1'' = 10
   \<and> ledger_balance half_transfer_end ''prod-1'' ''loc-1'' = 7"
  by (simp add: half_transfer_def half_transfer_end_def cellar_def wine_def engine_defs
                cached_quantity_def ledger_balance_def signed_quantity_def)

text \<open>
  Claim C2, amended. Take any database and a sequence of engine operations (recording
  check-in, check-out and transfer transactions, and setting a quantity) without session
  cancellation, in which every operation returns, every transfer names both its source
  and its destination, and no location is passed as the empty string. Then for every
  (product, location) pair the sequence has changed the cached quantity, 0 standing for a
  pair without a row, by exactly as much as the signed sum of the ledger rows affecting
  the pair: the cache equals that sum afterwards whenever it did before, as in a database
  without stock and without ledger rows.
\<close>

theorem ledger_matches_cache:
  assumes "list_all engine_movement ops" and "run_ops ops s = Some s'"
  shows "cached_quantity s' p l - cached_quantity s p l
         = ledger_balance s' p l - ledger_balance s p l"
  by (rule run_ops_delta [OF assms])

theorem ledger_matches_cache_witness:
  "run_ops day_ops sampled = Some day_end
   \<and> cached_quantity sampled ''prod-1'' ''loc-1'' = 12
   \<and> ledger_balance sampled ''prod-1'' ''loc-1'' = 0
   \<and> cached_quantity day_end ''prod-1'' ''loc-1'' = 11
   \<and> ledger_balance day_end ''prod-1'' ''loc-1'' = - 1"
proof -
  have moves: "list_all engine_movement day_ops"
    by (simp add: day_ops_def movement_def plain_transaction_def)
  have run: "run_ops day_ops sampled = Some day_end"
    by (simp add: day_ops_def day_end_def sampled_def cellar_def wine_def engine_defs)
  have before: "cached_quantity sampled ''prod-1'' ''loc-1'' = 12"
      "ledger_balance sampled ''prod-1'' ''loc-1'' = 0"
    by (simp_all add: cached_quantity_def select_inventory_def ledger_balance_def sampled_def
                      cellar_def)
  have after: "cached_quantity day_end ''prod-1'' ''loc-1'' = 11"
    by (simp add: cached_quantity_def select_inventory_def day_end_def)
  from ledger_matches_cache [OF moves run, of "''prod-1''" "''loc-1''"] run before after
  show ?thesis by simp
qed

lemma insufficient_stock_row_is_kept:
  assumes "bindable d" and "transaction_accepted (transaction_row tid d userId sessionId) s"
    and "select_inventory s (sql_value (td_product_id d)) src = Some existing"
    and "quantity existing < td_quantity d"
    and "td_source_location_id d = Val src" and "src \<noteq> []"
  shows "td_transaction_type d = ''check_out'' \<Longrightarrow>
           createInventoryTransaction tid d userId sessionId s
             = (Inl InsufficientQuantity,
                append_transaction (transaction_row tid d userId sessionId) s)"
    and "td_transaction_type d = ''transfer'' \<Longrightarrow> js_truthy (td_destination_location_id d) \<Longrightarrow>
           createInventoryTransaction tid d userId sessionId s
             = (Inl InsufficientForTransfer,
                append_transaction (transaction_row tid d userId sessionId) s)"
  using assms
  by (simp_all add: createInventoryTransaction_def insert_transaction_def js_truthy_def
                    truthy_def updateInventoryForCheckOut_def updateInventoryForTransfer_def)

text \<open>
  Claim C1. A check-out or transfer that asks for more than the source pair holds fails
  with the insufficient-stock error and writes nothing. The code runs its stock check
  only after the ledger row has been inserted: with 10 in stock, a check-out of 15 (its
  optional fields passed as \<^verbatim>\<open>null\<close>) throws 'Insufficient quantity available' and leaves
  the quantity at 10, but the row of the rejected movement stays in the ledger.
\<close>

theorem rejected_check_out_stays_in_ledger:
  "createInventoryTransaction ''trx-1''
     \<lparr>td_transaction_type = ''check_out'', td_product_id = Val ''prod-1'',
      td_source_location_id = Val ''loc-1'', td_destination_location_id = Null,
      td_quantity = 15, td_batch_number = Null, td_expiration_date = Null,
      td_notes = Null\<rparr> ''usr-1'' None shop
   = (Inl InsufficientQuantity,
      shop\<lparr>inventory_transactions := inventory_transactions shop @
        [\<lparr>trx_id = ''trx-1'', transaction_type = ''check_out'', trx_product_id = Some ''prod-1'',
          source_location_id = Some ''loc-1'', destination_location_id = None,
          trx_quantity = 15, created_by = ''usr-1'', session_id = None\<rparr>]\<rparr>)"
  by (simp add: engine_defs shop_def cellar_def wine_def)

text \<open>
  Claim C5. After every operation each inventory quantity is a non-negative integer, and
  the adjustment path lowers a quantity only as far as zero. The code stores whatever
  target it is given, and the table puts no condition on the quantity: setting the pair
  that holds 10 to -15 leaves -15 in the inventory row. (The call then throws, at the
  binding of the ledger row it was to log, and the stored quantity stays.)
\<close>

theorem negative_target_is_stored:
  "updateInventoryQuantity ''trx-1'' ''prod-1'' ''loc-1'' (- 15) ''usr-123'' shop
   = (Inl UndefinedParameter,
      shop\<lparr>inventory :=
             [\<lparr>inv_product_id = Some ''prod-1'', inv_location_id = ''loc-1'', quantity = - 15\<rparr>]\<rparr>)"
  by (simp add: engine_defs shop_def cellar_def wine_def)

text \<open>
  Claim C6, as stated: recording a transaction with a quantity of zero or less is rejected
  and writes nothing. It fails: a check-in of -5 into the pair that holds 10 returns
  normally, inserts its ledger row and lowers the quantity to 5.
\<close>

theorem negative_check_in_is_written:
  "createInventoryTransaction ''trx-1''
     \<lparr>td_transaction_type = ''check_in'', td_product_id = Val ''prod-1'',
      td_source_location_id = Null, td_destination_location_id = Val ''loc-1'',
      td_quantity = - 5, td_batch_number = Null, td_expiration_date = Null,
      td_notes = Null\<rparr> ''usr-1'' None shop
   = (Inr (Some \<lparr>trx_id = ''trx-1'', transaction_type = ''check_in'',
                 trx_product_id = Some ''prod-1'', source_location_id = None,
                 destination_location_id = Some ''loc-1'', trx_quantity = - 5,
                 created_by = ''usr-1'', session_id = None\<rparr>),
      shop\<lparr>inventory :=
             [\<lparr>inv_product_id = Some ''prod-1'', inv_location_id = ''loc-1'', quantity = 5\<rparr>],
           inventory_transactions := inventory_transactions shop @
             [\<lparr>trx_id = ''trx-1'', transaction_type = ''check_in'', trx_product_id = Some ''prod-1'',
               source_location_id = None, destination_location_id = Some ''loc-1'',
               trx_quantity = - 5, created_by = ''usr-1'', session_id = None\<rparr>]\<rparr>)"
  by (simp add: engine_defs shop_def cellar_def wine_def)

text \<open>
  Claim C6, amended. Recording a transaction never inspects the sign of its quantity, and
  neither does the ledger table: a call with a quantity of zero or less whose parameters
  bind and whose row the table accepts (a fresh id, a known kind, references that
  resolve) inserts that row like any other. A check-in of such a quantity into a
  destination pair that holds at least as many units as the quantity takes off then
  returns normally and takes them off the pair.
\<close>

theorem nonpositive_quantity_is_recorded:
  assumes "td_quantity d \<le> 0" and "bindable d"
    and "transaction_accepted (transaction_row tid d userId sessionId) s"
  shows "inventory_transactions (snd (createInventoryTransaction tid d userId sessionId s))
           = inventory_transactions s @ [transaction_row tid d userId sessionId]
       \<and> (td_transaction_type d = ''check_in'' \<and> td_product_id d = Val p
            \<and> td_destination_location_id d = Val dst \<and> dst \<noteq> []
            \<and> \<bar>td_quantity d\<bar> \<le> cached_quantity s p dst
          \<longrightarrow> (\<exists>created. fst (createInventoryTransaction tid d userId sessionId s) = Inr created)
              \<and> cached_quantity (snd (createInventoryTransaction tid d userId sessionId s)) p dst
                 = cached_quantity s p dst - \<bar>td_quantity d\<bar>)"
proof (intro conjI impI)
  show "inventory_transactions (snd (createInventoryTransaction tid d userId sessionId s))
          = inventory_transactions s @ [transaction_row tid d userId sessionId]"
    using assms(2,3) by (rule ledger_createInventoryTransaction)
next
  let ?s1 = "append_transaction (transaction_row tid d userId sessionId) s"
  assume check_in: "td_transaction_type d = ''check_in'' \<and> td_product_id d = Val p
      \<and> td_destination_location_id d = Val dst \<and> dst \<noteq> []
      \<and> \<bar>td_quantity d\<bar> \<le> cached_quantity s p dst"
  with check_in_is_accepted [OF assms(3), of dst "td_quantity d"] obtain s2 where
    step: "updateInventoryForCheckIn (Some p) dst (td_quantity d) ?s1 = Inr s2"
    by auto
  with check_in assms(2,3)
  have run: "createInventoryTransaction tid d userId sessionId s
               = (Inr (getTransactionById s2 tid), s2)"
    by (simp add: createInventoryTransaction_def insert_transaction_def js_truthy_def truthy_def)
  then show "\<exists>created. fst (createInventoryTransaction tid d userId sessionId s) = Inr created"
    by simp
  from run cached_check_in [OF step, of p dst] assms(1)
  show "cached_quantity (snd (createInventoryTransaction tid d userId sessionId s)) p dst
        = cached_quantity s p dst - \<bar>td_quantity d\<bar>"
    by simp
qed

theorem nonpositive_quantity_is_recorded_witness:
  "inventory_transactions
     (snd (createInventoryTransaction ''trx-1''
             (plain_transaction ''check_in'' ''prod-1'' Null (Val ''loc-1'') (- 5))
             ''usr-1'' None shop))
   = inventory_transactions shop @
       [\<lparr>trx_id = ''trx-1'', transaction_type = ''check_in'', trx_product_id = Some ''prod-1'',
         source_location_id = None, destination_location_id = Some ''loc-1'',
         trx_quantity = - 5, created_by = ''usr-1'', session_id = None\<rparr>]
   \<and> cached_quantity shop ''prod-1'' ''loc-1'' = 10
   \<and> cached_quantity
       (snd (createInventoryTransaction ''trx-1''
               (plain_transaction ''check_in'' ''prod-1'' Null (Val ''loc-1'') (- 5))
               ''usr-1'' None shop))
       ''prod-1'' ''loc-1'' = 5"
proof -
  let ?d = "plain_transaction ''check_in'' ''prod-1'' Null (Val ''loc-1'') (- 5)"
  have stock: "cached_quantity shop ''prod-1'' ''loc-1'' = 10"
    by (simp add: cached_quantity_def select_inventory_def shop_def)
  have call: "td_quantity ?d \<le> 0" "bindable ?d"
      "td_transaction_type ?d = ''check_in''" "td_destination_location_id ?d = Val ''loc-1''"
      "td_product_id ?d = Val ''prod-1''" "td_quantity ?d = - 5"
    by (simp_all add: plain_transaction_def bindable_def)
  have accepted: "transaction_accepted (transaction_row ''trx-1'' ?d ''usr-1'' None) shop"
    by (simp add: transaction_accepted_def transaction_row_def plain_transaction_def
                  fk_holds_def shop_def cellar_def wine_def)
  from nonpositive_quantity_is_recorded
         [OF call(1,2) accepted, where dst = "''loc-1''" and p = "''prod-1''"]
    stock call
  show ?thesis by (simp add: transaction_row_def plain_transaction_def)
qed

text \<open>
  Claim C10, as stated: a call of \<^verbatim>\<open>createInventoryTransaction\<close> whose kind is
  'adjustment', or any value other than 'check_in', 'check_out' and 'transfer', inserts a
  ledger row and neither creates nor changes an inventory row. It fails for the other
  values: the ledger table admits the four kinds only, so a row of kind 'return' is
  rejected, the call throws, and no ledger row is inserted.
\<close>

theorem unknown_kind_is_not_logged:
  "createInventoryTransaction ''trx-1''
     \<lparr>td_transaction_type = ''return'', td_product_id = Val ''prod-1'',
      td_source_location_id = Null, td_destination_location_id = Val ''loc-1'',
      td_quantity = 4, td_batch_number = Null, td_expiration_date = Null,
      td_notes = Null\<rparr> ''usr-1'' None shop
   = (Inl ConstraintFailed, shop)"
  by (simp add: engine_defs shop_def cellar_def wine_def)

text \<open>
  Claim C10, amended. A call of \<^verbatim>\<open>createInventoryTransaction\<close> of kind 'adjustment'
  whose parameters bind and whose row the ledger table accepts inserts that row and
  neither creates nor changes an inventory row; a call of a kind outside 'check_in',
  'check_out', 'adjustment' and 'transfer' is rejected (by the table, if not already by
  the binding) and writes nothing at all. The quantity of an adjustment is written by
  \<^verbatim>\<open>updateInventoryQuantity\<close> itself, ahead of its call to
  \<^verbatim>\<open>createInventoryTransaction\<close>: whenever the pair has its row, or the inventory table
  accepts one for it, a target quantity that is not negative is in the pair's row when
  \<^verbatim>\<open>updateInventoryQuantity\<close> ends.
\<close>

theorem adjustment_rows_leave_inventory:
  "(td_transaction_type d = ''adjustment'' \<and> bindable d
      \<and> transaction_accepted (transaction_row tid d userId sessionId) s
    \<longrightarrow> createInventoryTransaction tid d userId sessionId s =
          (Inr (getTransactionById
                  (s\<lparr>inventory_transactions :=
                       inventory_transactions s @ [transaction_row tid d userId sessionId]\<rparr>) tid),
           s\<lparr>inventory_transactions :=
                inventory_transactions s @ [transaction_row tid d userId sessionId]\<rparr>))
   \<and> (td_transaction_type d \<notin> {''check_in'', ''check_out'', ''adjustment'', ''transfer''}
    \<longrightarrow> createInventoryTransaction tid d userId sessionId s
          = (Inl (if bindable d then ConstraintFailed else UndefinedParameter), s))
   \<and> (0 \<le> q \<and> (select_inventory s (Some p) l \<noteq> None \<or> inventory_accepted (Some p) l s)
    \<longrightarrow> cached_quantity (snd (updateInventoryQuantity tid' p l q userId s)) p l = q)"
proof (intro conjI impI)
  assume "td_transaction_type d = ''adjustment'' \<and> bindable d
      \<and> transaction_accepted (transaction_row tid d userId sessionId) s"
  then show "createInventoryTransaction tid d userId sessionId s =
          (Inr (getTransactionById
                  (s\<lparr>inventory_transactions :=
                       inventory_transactions s @ [transaction_row tid d userId sessionId]\<rparr>) tid),
           s\<lparr>inventory_transactions :=
                inventory_transactions s @ [transaction_row tid d userId sessionId]\<rparr>)"
    by (simp add: adjustment_row_only append_transaction_def)
next
  assume "td_transaction_type d \<notin> {''check_in'', ''check_out'', ''adjustment'', ''transfer''}"
  then have "\<not> transaction_accepted (transaction_row tid d userId sessionId) s"
    by (simp add: transaction_accepted_def transaction_row_def)
  then show "createInventoryTransaction tid d userId sessionId s
               = (Inl (if bindable d then ConstraintFailed else UndefinedParameter), s)"
    by (rule rejected_row_writes_nothing)
next
  assume "0 \<le> q \<and> (select_inventory s (Some p) l \<noteq> None \<or> inventory_accepted (Some p) l s)"
  then have "select_inventory s (Some p) l \<noteq> None \<or> inventory_accepted (Some p) l s" ..
  then show "cached_quantity (snd (updateInventoryQuantity tid' p l q userId s)) p l = q"
    by (rule set_quantity_stores)
qed

theorem adjustment_rows_leave_inventory_witness:
  "createInventoryTransaction ''trx-1''
     (plain_transaction ''adjustment'' ''prod-1'' (Val ''loc-1'') Null 4) ''usr-1'' None shop
   = (Inr (Some \<lparr>trx_id = ''trx-1'', transaction_type = ''adjustment'',
                 trx_product_id = Some ''prod-1'', source_location_id = Some ''loc-1'',
                 destination_location_id = None, trx_quantity = 4,
                 created_by = ''usr-1'', session_id = None\<rparr>),
      shop\<lparr>inventory_transactions := inventory_transactions shop @
        [\<lparr>trx_id = ''trx-1'', transaction_type = ''adjustment'', trx_product_id = Some ''prod-1'',
          source_location_id = Some ''loc-1'', destination_location_id = None,
          trx_quantity = 4, created_by = ''usr-1'', session_id = None\<rparr>]\<rparr>)
   \<and> createInventoryTransaction ''trx-1''
       (plain_transaction ''return'' ''prod-1'' (Val ''loc-1'') Null 4) ''usr-1'' None shop
     = (Inl ConstraintFailed, shop)
   \<and> cached_quantity shop ''prod-1'' ''loc-1'' = 10
   \<and> cached_quantity
       (snd (updateInventoryQuantity ''trx-2'' ''prod-1'' ''loc-1'' 6 ''usr-1'' shop))
       ''prod-1'' ''loc-1'' = 6"
proof -
  let ?adjust = "plain_transaction ''adjustment'' ''prod-1'' (Val ''loc-1'') Null 4"
  let ?return = "plain_transaction ''return'' ''prod-1'' (Val ''loc-1'') Null 4"
  have call: "td_transaction_type ?adjust = ''adjustment''" "bindable ?adjust"
      "td_transaction_type ?return = ''return''" "bindable ?return"
    by (simp_all add: plain_transaction_def bindable_def)
  have accepted: "transaction_accepted (transaction_row ''trx-1'' ?adjust ''usr-1'' None) shop"
    by (simp add: transaction_accepted_def transaction_row_def plain_transaction_def
                  fk_holds_def shop_def cellar_def wine_def)
  have stock: "cached_quantity shop ''prod-1'' ''loc-1'' = 10"
      "select_inventory shop (Some ''prod-1'') ''loc-1'' \<noteq> None"
    by (simp_all add: cached_quantity_def select_inventory_def shop_def)
  from adjustment_rows_leave_inventory
         [where d = ?adjust and tid = "''trx-1''" and userId = "''usr-1''" and sessionId = None
            and s = shop and p = "''prod-1''" and l = "''loc-1''" and tid' = "''trx-2''"
            and q = 6]
    call accepted stock
  have first: "createInventoryTransaction ''trx-1'' ?adjust ''usr-1'' None shop =
          (Inr (getTransactionById
                  (shop\<lparr>inventory_transactions := inventory_transactions shop @
                     [transaction_row ''trx-1'' ?adjust ''usr-1'' None]\<rparr>) ''trx-1''),
           shop\<lparr>inventory_transactions := inventory_transactions shop @
                     [transaction_row ''trx-1'' ?adjust ''usr-1'' None]\<rparr>)"
    and third: "cached_quantity
       (snd (updateInventoryQuantity ''trx-2'' ''prod-1'' ''loc-1'' 6 ''usr-1'' shop))
       ''prod-1'' ''loc-1'' = 6"
    by simp_all
  from adjustment_rows_leave_inventory
         [where d = ?return and tid = "''trx-1''" and userId = "''usr-1''" and sessionId = None
            and s = shop and p = "''prod-1''" and l = "''loc-1''" and tid' = "''trx-2''"
            and q = 6]
    call
  have second: "createInventoryTransaction ''trx-1'' ?return ''usr-1'' None shop
                  = (Inl ConstraintFailed, shop)"
    by simp
  from first second third stock show ?thesis
    by (simp add: transaction_row_def plain_transaction_def getTransactionById_def shop_def
                  cellar_def wine_def)
qed

section \<open>Sessions\<close>

lemma select_reverse_transactions:
  "select_inventory (reverse_transactions ts s) (Some p) l =
     map_option (\<lambda>r. r\<lparr>quantity := quantity r + sum_list (map (\<lambda>t. reversal t p l) ts)\<rparr>)
       (select_inventory s (Some p) l)"
proof (induction ts arbitrary: s)
  case Nil
  show ?case by (simp add: option.map_ident)
next
  case (Cons t ts)
  show ?case
    by (cases "select_inventory s (Some p) l")
       (auto simp: Cons.IH select_update_add_opt reversal_def algebra_simps)
qed

lemma null_rows_update_add:
  "filter (\<lambda>r. inv_product_id r = None) (inventory (update_quantity_add p l d s))
   = filter (\<lambda>r. inv_product_id r = None) (inventory s)"
proof -
  have "filter (\<lambda>r. inv_product_id r = None)
          (map (\<lambda>r. if sql_eq (inv_product_id r) p \<and> sql_eq (Some (inv_location_id r)) l
                     then r\<lparr>quantity := quantity r + d\<rparr> else r) xs)
        = filter (\<lambda>r. inv_product_id r = None) xs" for xs
    by (induction xs) (auto simp: sql_eq_def)
  then show ?thesis by (simp add: update_quantity_add_def)
qed

lemma null_rows_reverse_transactions:
  "filter (\<lambda>r. inv_product_id r = None) (inventory (reverse_transactions ts s))
   = filter (\<lambda>r. inv_product_id r = None) (inventory s)"
  by (induction ts arbitrary: s) (simp_all add: null_rows_update_add)

lemma reverse_transactions_frame [simp]:
  "inventory_transactions (reverse_transactions ts s) = inventory_transactions s"
  "sessions (reverse_transactions ts s) = sessions s"
  "products (reverse_transactions ts s) = products s"
  "categories (reverse_transactions ts s) = categories s"
  "locations (reverse_transactions ts s) = locations s"
  by (induction ts arbitrary: s) (simp_all add: update_quantity_add_def)

text \<open>
  The inner join of \<^verbatim>\<open>getSessionTransactions\<close> yields a ledger row once for every row that
  the product table holds under the row's product id.
\<close>

lemma joined_rows:
  "[t. x \<leftarrow> ps, trx_product_id t = Some (prod_id x)]
   = replicate (length (filter (\<lambda>x. trx_product_id t = Some (prod_id x)) ps)) t"
  by (induction ps) auto

lemma reversal_of_joined:
  "sum_list (map (\<lambda>t. reversal t p l)
               [t. t \<leftarrow> ts, c t, x \<leftarrow> ps, trx_product_id t = Some (prod_id x)])
   = int (length (filter (\<lambda>x. prod_id x = p) ps))
       * sum_list (map (\<lambda>t. reversal t p l) (filter c ts))"
proof (induction ts)
  case Nil
  show ?case by simp
next
  case (Cons t ts)
  have joined: "sum_list (map (\<lambda>t. reversal t p l)
                            [t. x \<leftarrow> ps, trx_product_id t = Some (prod_id x)])
        = int (length (filter (\<lambda>x. trx_product_id t = Some (prod_id x)) ps)) * reversal t p l"
    by (simp only: joined_rows) (simp add: sum_list_replicate)
  have one: "sum_list (map (\<lambda>t. reversal t p l)
                         [t. x \<leftarrow> ps, trx_product_id t = Some (prod_id x)])
             = int (length (filter (\<lambda>x. prod_id x = p) ps)) * reversal t p l"
  proof (cases "trx_product_id t = Some p")
    case True
    then have "filter (\<lambda>x. trx_product_id t = Some (prod_id x)) ps
               = filter (\<lambda>x. prod_id x = p) ps"
      by (auto intro: filter_cong)
    with joined show ?thesis by simp
  next
    case False
    then have "reversal t p l = 0" by (simp add: reversal_def)
    with joined show ?thesis by simp
  qed
  show ?case
  proof (cases "c t")
    case True
    have "sum_list (map (\<lambda>t. reversal t p l)
                      [t. t \<leftarrow> t # ts, c t, x \<leftarrow> ps, trx_product_id t = Some (prod_id x)])
          = sum_list (map (\<lambda>t. reversal t p l)
                        [t. x \<leftarrow> ps, trx_product_id t = Some (prod_id x)])
            + sum_list (map (\<lambda>t. reversal t p l)
                          [t. t \<leftarrow> ts, c t, x \<leftarrow> ps, trx_product_id t = Some (prod_id x)])"
      using True by simp
    with True show ?thesis by (simp only: one Cons.IH) (simp add: algebra_simps)
  next
    case False
    with Cons.IH show ?thesis by simp
  qed
qed

lemma reversal_sum:
  "sum_list (map (\<lambda>t. reversal t p l) (filter (\<lambda>t. session_id t = Some sid) ts))
   = sum_list [trx_quantity t. t \<leftarrow> ts, session_id t = Some sid,
                 transaction_type t = ''check_out'',
                 trx_product_id t = Some p \<and> source_location_id t = Some l]
     - sum_list [trx_quantity t. t \<leftarrow> ts, session_id t = Some sid,
                 transaction_type t = ''check_in'',
                 trx_product_id t = Some p \<and> destination_location_id t = Some l]"
  by (induction ts) (auto simp: reversal_def)

lemma reversal_of_session:
  "sum_list (map (\<lambda>t. reversal t p l) (getSessionTransactions s sid))
   = int (product_rows s p) * (session_checked_out s sid p l - session_checked_in s sid p l)"
proof -
  have "sum_list (map (\<lambda>t. reversal t p l) (getSessionTransactions s sid))
        = sum_list (map (\<lambda>t. reversal t p l)
            [t. t \<leftarrow> inventory_transactions s, session_id t = Some sid,
                x \<leftarrow> products s, trx_product_id t = Some (prod_id x)])"
    by (simp add: getSessionTransactions_def rev_map [symmetric] cong: if_cong)
  then show ?thesis
    by (simp only: reversal_of_joined reversal_sum product_rows_def session_checked_in_def
                   session_checked_out_def)
qed

lemma find_status_update:
  "find (\<lambda>x. sess_id x = sid') (map (\<lambda>x. if sess_id x = sid then x\<lparr>status := st\<rparr> else x) xs)
   = (if sid' = sid then map_option (\<lambda>x. x\<lparr>status := st\<rparr>) (find (\<lambda>x. sess_id x = sid) xs)
      else find (\<lambda>x. sess_id x = sid') xs)"
  by (induction xs) auto

lemma getSessionById_update_status:
  "getSessionById (update_session_status sid st s) sid' =
     (if sid' = sid then map_option (\<lambda>x. x\<lparr>status := st\<rparr>) (getSessionById s sid)
      else getSessionById s sid')"
  by (simp add: getSessionById_def update_session_status_def find_status_update)

lemma select_update_session_status [simp]:
  "select_inventory (update_session_status sid st s) = select_inventory s"
  by (simp add: select_inventory_def update_session_status_def fun_eq_iff)

lemma getSessionById_reverse [simp]:
  "getSessionById (reverse_transactions ts s) sid = getSessionById s sid"
  by (simp add: getSessionById_def)

lemma cancel_in_progress:
  assumes "getSessionById s sid = Some sess" and "status sess = ''in_progress''"
  shows "cancelSession sid userId s
         = (Inr (Some (sess\<lparr>status := ''cancelled''\<rparr>)),
            update_session_status sid ''cancelled''
              (reverse_transactions (getSessionTransactions s sid) s))"
  using assms by (simp add: cancelSession_def Let_def getSessionById_update_status)

lemma select_after_cancel:
  "select_inventory
     (update_session_status sid st (reverse_transactions (getSessionTransactions s sid) s))
     (Some p) l
   = map_option
       (\<lambda>r. r\<lparr>quantity := quantity r + int (product_rows s p)
                 * (session_checked_out s sid p l - session_checked_in s sid p l)\<rparr>)
       (select_inventory s (Some p) l)"
  by (simp add: select_reverse_transactions reversal_of_session)

lemma null_rows_after_cancel:
  "filter (\<lambda>r. inv_product_id r = None)
     (inventory (update_session_status sid st
                   (reverse_transactions (getSessionTransactions s sid) s)))
   = filter (\<lambda>r. inv_product_id r = None) (inventory s)"
  by (simp add: update_session_status_def null_rows_reverse_transactions)

text \<open>
  Claim C3, as stated: cancelling a session that is in progress applies the inverse of
  every transaction logged under it to the inventory rows and then sets the session's
  status to cancelled. It fails for a transaction whose product the product table does
  not list: the query that collects the session's transactions joins the ledger with the
  product table and so leaves such a row out. A check-in session receives 5 units under a
  call that passes \<^verbatim>\<open>null\<close> for the product, which logs the check-in and inserts an
  inventory row of 5 units at the session's location; cancelling the session sets it to
  cancelled and leaves the 5 units where they are.
\<close>

theorem unlisted_product_is_not_reversed:
  "addProductToSession ''trx-1'' ''sess-1''
     \<lparr>si_product_id = Null, si_quantity = 5, si_batch_number = Null,
      si_expiration_date = Null, si_notes = Null\<rparr> ''usr-1'' opened
   = (Inr None, opened_received)
   \<and> cancelSession ''sess-1'' ''usr-1'' opened_received
     = (Inr (Some (receiving_session\<lparr>status := ''cancelled''\<rparr>)),
        opened_received\<lparr>sessions := [receiving_session\<lparr>status := ''cancelled''\<rparr>]\<rparr>)
   \<and> inventory opened_received
     = [\<lparr>inv_product_id = None, inv_location_id = ''loc-1'', quantity = 5\<rparr>]
   \<and> inventory_transactions opened_received
     = [\<lparr>trx_id = ''trx-1'', transaction_type = ''check_in'', trx_product_id = None,
         source_location_id = None, destination_location_id = Some ''loc-1'',
         trx_quantity = 5, created_by = ''usr-1'', session_id = Some ''sess-1''\<rparr>]"
  by (simp add: addProductToSession_def cancelSession_def getSessionById_def
                getSessionTransactions_def update_session_status_def Let_def
                opened_def opened_received_def receiving_session_def cellar_def wine_def
                engine_defs)

text \<open>
  Claim C3, amended. Cancelling a session that is in progress applies the inverse of
  every transaction logged under it whose product has its row in the product table (each
  check-in is subtracted from its destination pair, each check-out is added back to its
  source pair) and then sets the session's status to cancelled: the quantity of every
  inventory row of a product with one row in the product table becomes the old one minus
  what the session checked in to the pair plus what it checked out of it. The inventory
  rows of a product without a row in the product table, and those without a product,
  stay as they are.
\<close>

theorem cancel_reverses_session:
  assumes "getSessionById s sid = Some sess" and "status sess = ''in_progress''"
  shows "\<exists>s'. cancelSession sid userId s = (Inr (Some (sess\<lparr>status := ''cancelled''\<rparr>)), s')
           \<and> getSessionById s' sid = Some (sess\<lparr>status := ''cancelled''\<rparr>)
           \<and> (\<forall>p l. product_rows s p = 1 \<longrightarrow>
                 select_inventory s' (Some p) l =
                   map_option (\<lambda>r. r\<lparr>quantity := quantity r - session_checked_in s sid p l
                                                   + session_checked_out s sid p l\<rparr>)
                     (select_inventory s (Some p) l))
           \<and> (\<forall>p l. product_rows s p = 0 \<longrightarrow>
                 select_inventory s' (Some p) l = select_inventory s (Some p) l)
           \<and> filter (\<lambda>r. inv_product_id r = None) (inventory s')
               = filter (\<lambda>r. inv_product_id r = None) (inventory s)"
proof -
  let ?s2 = "update_session_status sid ''cancelled''
               (reverse_transactions (getSessionTransactions s sid) s)"
  have sess: "getSessionById ?s2 sid = Some (sess\<lparr>status := ''cancelled''\<rparr>)"
    using assms(1) by (simp add: getSessionById_update_status)
  have listed: "select_inventory ?s2 (Some p) l =
                  map_option (\<lambda>r. r\<lparr>quantity := quantity r - session_checked_in s sid p l
                                                  + session_checked_out s sid p l\<rparr>)
                    (select_inventory s (Some p) l)" if "product_rows s p = 1" for p l
    using that by (simp only: select_after_cancel) (simp add: algebra_simps)
  have unlisted: "select_inventory ?s2 (Some p) l = select_inventory s (Some p) l"
    if "product_rows s p = 0" for p l
    using that by (simp only: select_after_cancel) (simp add: option.map_ident)
  note unowned = null_rows_after_cancel [of sid "''cancelled''" s]
  from cancel_in_progress [OF assms] sess listed unlisted unowned show ?thesis by blast
qed

theorem cancel_reverses_session_witness:
  "getSessionById receiving ''sess-1'' = Some receiving_session
   \<and> session_checked_in receiving ''sess-1'' ''prod-1'' ''loc-1'' = 5 + 3
   \<and> cached_quantity receiving ''prod-1'' ''loc-1'' = 18
   \<and> (\<exists>s'. cancelSession ''sess-1'' ''usr-1'' receiving
              = (Inr (Some (receiving_session\<lparr>status := ''cancelled''\<rparr>)), s')
          \<and> cached_quantity s' ''prod-1'' ''loc-1'' = 10
          \<and> cached_quantity s' ''prod-9'' ''loc-1'' = 0)"
proof -
  have found: "getSessionById receiving ''sess-1'' = Some receiving_session"
    by (simp add: getSessionById_def receiving_def receiving_session_def)
  have open_session: "status receiving_session = ''in_progress''"
    by (simp add: receiving_session_def)
  have listed: "product_rows receiving ''prod-1'' = 1" "product_rows receiving ''prod-9'' = 0"
    by (simp_all add: product_rows_def receiving_def shop_def cellar_def wine_def)
  have checked_in: "session_checked_in receiving ''sess-1'' ''prod-1'' ''loc-1'' = 5 + 3"
    by (simp add: session_checked_in_def receiving_def shop_def cellar_def)
  have checked_out: "session_checked_out receiving ''sess-1'' ''prod-1'' ''loc-1'' = 0"
    by (simp add: session_checked_out_def receiving_def shop_def cellar_def)
  have before: "select_inventory receiving (Some ''prod-1'') ''loc-1''
      = Some \<lparr>inv_product_id = Some ''prod-1'', inv_location_id = ''loc-1'', quantity = 18\<rparr>"
      "select_inventory receiving (Some ''prod-9'') ''loc-1'' = None"
    by (simp_all add: select_inventory_def receiving_def)
  from cancel_reverses_session [OF found open_session, of "''usr-1''"] listed
  obtain s' where run: "cancelSession ''sess-1'' ''usr-1'' receiving
        = (Inr (Some (receiving_session\<lparr>status := ''cancelled''\<rparr>)), s')"
    and after: "select_inventory s' (Some ''prod-1'') ''loc-1'' =
        map_option (\<lambda>r. r\<lparr>quantity := quantity r
                              - session_checked_in receiving ''sess-1'' ''prod-1'' ''loc-1''
                              + session_checked_out receiving ''sess-1'' ''prod-1'' ''loc-1''\<rparr>)
          (select_inventory receiving (Some ''prod-1'') ''loc-1'')"
    and other: "select_inventory s' (Some ''prod-9'') ''loc-1''
        = select_inventory receiving (Some ''prod-9'') ''loc-1''"
    by blast
  from after other have "cached_quantity s' ''prod-1'' ''loc-1'' = 10"
      "cached_quantity s' ''prod-9'' ''loc-1'' = 0"
    by (simp_all add: cached_quantity_def before checked_in checked_out)
  with run found checked_in before show ?thesis
    by (auto simp: cached_quantity_def)
qed

lemma sessions_update_add [simp]: "sessions (update_quantity_add p l d s) = sessions s"
  by (simp add: update_quantity_add_def)

lemma sessions_update_set [simp]: "sessions (update_quantity_set p l q s) = sessions s"
  by (simp add: update_quantity_set_def)

lemma sessions_append_inventory [simp]: "sessions (append_inventory p l q s) = sessions s"
  by (simp add: append_inventory_def)

lemma sessions_append_transaction [simp]: "sessions (append_transaction row s) = sessions s"
  by (simp add: append_transaction_def)

lemma sessions_check_in:
  "updateInventoryForCheckIn p l q s = Inr s' \<Longrightarrow> sessions s' = sessions s"
  by (auto simp: updateInventoryForCheckIn_def split: option.splits dest!: insert_inventory_Inr)

lemma sessions_check_out:
  "updateInventoryForCheckOut p l q s = Inr s' \<Longrightarrow> sessions s' = sessions s"
  by (auto simp: updateInventoryForCheckOut_def split: option.splits if_splits)

lemma sessions_transfer:
  "updateInventoryForTransfer p src dst q s = Inr s' \<Longrightarrow> sessions s' = sessions s"
  by (auto simp: updateInventoryForTransfer_def Let_def split: option.splits if_splits
           dest!: insert_inventory_Inr)

lemma sessions_createInventoryTransaction:
  "sessions (snd (createInventoryTransaction tid d userId sessionId s)) = sessions s"
  by (auto simp: createInventoryTransaction_def insert_transaction_def
           split: sum.splits dest: sessions_check_in sessions_check_out sessions_transfer)

lemma sessions_updateInventoryQuantity:
  "sessions (snd (updateInventoryQuantity tid p l q userId s)) = sessions s"
  by (simp add: set_quantity_writes split: option.splits)

lemma sessions_run_op: "sessions (snd (run_op x s)) = sessions s"
proof (cases x)
  case (RecordTransaction tid d userId sessionId)
  then show ?thesis
    using sessions_createInventoryTransaction [of tid d userId sessionId s]
    by (auto split: prod.splits sum.splits)
next
  case (SetQuantity tid p l q userId)
  then show ?thesis
    using sessions_updateInventoryQuantity [of tid p l q userId s]
    by (auto split: prod.splits sum.splits)
qed

lemma closed_complete:
  "getSessionById s sid = Some sess \<Longrightarrow> status sess \<noteq> ''in_progress'' \<Longrightarrow>
   completeSession sid userId s = (Inl SessionAlreadyClosed, s)"
  by (simp add: completeSession_def)

lemma closed_cancel:
  "getSessionById s sid = Some sess \<Longrightarrow> status sess \<noteq> ''in_progress'' \<Longrightarrow>
   cancelSession sid userId s = (Inl SessionAlreadyClosed, s)"
  by (simp add: cancelSession_def)

lemma closed_add:
  "getSessionById s sid = Some sess \<Longrightarrow> status sess \<noteq> ''in_progress'' \<Longrightarrow>
   addProductToSession tid sid item userId s = (Inl CannotAddToClosed, s)"
  by (simp add: addProductToSession_def)

lemma closed_survives:
  assumes "getSessionById s sid = Some sess" and "status sess \<noteq> ''in_progress''"
  shows "getSessionById (db_after x s) sid = Some sess"
proof (cases x)
  case (Engine y)
  with assms show ?thesis by (simp add: getSessionById_def sessions_run_op)
next
  case (CreateProduct pid pd userId)
  with assms show ?thesis
    by (auto simp: getSessionById_def createProduct_def insert_product_def
             split: option.splits)
next
  case (CreateSession sid' sd userId)
  with assms show ?thesis by (simp add: getSessionById_def createSession_def Let_def find_snoc)
next
  case (AddProductToSession tid sid' item userId)
  show ?thesis
  proof (cases "getSessionById s sid'")
    case None
    with assms AddProductToSession show ?thesis by (simp add: addProductToSession_def)
  next
    case (Some other)
    with assms AddProductToSession show ?thesis
      by (simp add: addProductToSession_def Let_def getSessionById_def
                    sessions_createInventoryTransaction)
  qed
next
  case (CompleteSession sid' userId)
  with assms show ?thesis
    by (cases "sid' = sid")
       (auto simp: completeSession_def Let_def getSessionById_update_status split: option.splits)
next
  case (CancelSession sid' userId)
  with assms show ?thesis
    by (cases "sid' = sid")
       (auto simp: cancelSession_def Let_def getSessionById_update_status split: option.splits)
qed

text \<open>
  Claim C4. Completed and cancelled are terminal: for a session whose status is not
  'in_progress', completing it, cancelling it and adding a product to it each fail with the
  invalid-state error and leave the whole database (session, ledger, inventory) as it was;
  and no operation at all changes the row of such a session, so its status is never changed
  again.
\<close>

theorem closed_session_is_terminal:
  assumes "getSessionById s sid = Some sess" and "status sess \<noteq> ''in_progress''"
  shows "completeSession sid userId s = (Inl SessionAlreadyClosed, s)
       \<and> cancelSession sid userId s = (Inl SessionAlreadyClosed, s)
       \<and> addProductToSession tid sid item userId s = (Inl CannotAddToClosed, s)
       \<and> getSessionById (db_after x s) sid = Some sess"
  using assms closed_complete closed_cancel closed_add closed_survives by simp

theorem closed_session_is_terminal_witness:
  "getSessionById after_hours ''sess-2'' = Some finished_session
   \<and> status finished_session = ''completed''
   \<and> completeSession ''sess-2'' ''usr-1'' after_hours = (Inl SessionAlreadyClosed, after_hours)
   \<and> cancelSession ''sess-2'' ''usr-1'' after_hours = (Inl SessionAlreadyClosed, after_hours)
   \<and> addProductToSession ''trx-1'' ''sess-2'' (plain_item ''prod-1'' 1)
       ''usr-1'' after_hours = (Inl CannotAddToClosed, after_hours)
   \<and> getSessionById
       (db_after (CreateSession ''sess-2''
                    \<lparr>sd_session_type = ''check_in'', sd_location_id = Some ''loc-1''\<rparr> ''usr-1'')
          after_hours) ''sess-2'' = Some finished_session"
proof -
  have found: "getSessionById after_hours ''sess-2'' = Some finished_session"
    by (simp add: getSessionById_def after_hours_def finished_session_def)
  have closed: "status finished_session \<noteq> ''in_progress''"
    and completed: "status finished_session = ''completed''"
    by (simp_all add: finished_session_def)
  from closed_session_is_terminal
         [OF found closed, of "''usr-1''" "''trx-1''" "plain_item ''prod-1'' 1"
             "CreateSession ''sess-2''
                \<lparr>sd_session_type = ''check_in'', sd_location_id = Some ''loc-1''\<rparr> ''usr-1''"]
    found completed
  show ?thesis by simp
qed

lemma update_add_keys:
  "map row_key (inventory (update_quantity_add p l d s)) = map row_key (inventory s)"
  by (simp add: update_quantity_add_def row_key_def comp_def)

lemma reverse_transactions_keys:
  "map row_key (inventory (reverse_transactions ts s)) = map row_key (inventory s)"
  by (induction ts arbitrary: s) (simp_all add: update_add_keys)

text \<open>
  Claim C7. Cancelling a session inserts no row into the transaction ledger: the ledger is
  exactly what it was. Nor does it touch products, categories or locations; the inventory
  rows keep their (product, location) keys, so only quantities can differ; and the session
  table keeps its ids and every row of another session.
\<close>

theorem cancel_writes_no_ledger_row:
  "inventory_transactions (snd (cancelSession sid userId s)) = inventory_transactions s
   \<and> products (snd (cancelSession sid userId s)) = products s
   \<and> categories (snd (cancelSession sid userId s)) = categories s
   \<and> locations (snd (cancelSession sid userId s)) = locations s
   \<and> map row_key (inventory (snd (cancelSession sid userId s))) = map row_key (inventory s)
   \<and> map sess_id (sessions (snd (cancelSession sid userId s))) = map sess_id (sessions s)
   \<and> filter (\<lambda>x. sess_id x \<noteq> sid) (sessions (snd (cancelSession sid userId s)))
       = filter (\<lambda>x. sess_id x \<noteq> sid) (sessions s)"
proof -
  have ids: "map sess_id (map (\<lambda>x. if sess_id x = sid then x\<lparr>status := st\<rparr> else x) xs)
           = map sess_id xs" for st and xs :: "session list"
    by (induction xs) auto
  have others: "filter (\<lambda>x. sess_id x \<noteq> sid)
             (map (\<lambda>x. if sess_id x = sid then x\<lparr>status := st\<rparr> else x) xs)
           = filter (\<lambda>x. sess_id x \<noteq> sid) xs" for st and xs :: "session list"
    by (induction xs) auto
  show ?thesis
    by (auto simp: cancelSession_def Let_def update_session_status_def ids others
                   reverse_transactions_keys
             split: option.splits)
qed

theorem cancel_writes_no_ledger_row_witness:
  "fst (cancelSession ''sess-1'' ''usr-1'' receiving)
     = Inr (Some (receiving_session\<lparr>status := ''cancelled''\<rparr>))
   \<and> inventory_transactions (snd (cancelSession ''sess-1'' ''usr-1'' receiving))
     = inventory_transactions receiving
   \<and> length (inventory_transactions (snd (cancelSession ''sess-1'' ''usr-1'' receiving))) = 3"
proof -
  have "fst (cancelSession ''sess-1'' ''usr-1'' receiving)
          = Inr (Some (receiving_session\<lparr>status := ''cancelled''\<rparr>))"
    by (simp add: cancelSession_def Let_def getSessionById_def update_session_status_def
                  receiving_def receiving_session_def)
  moreover have "length (inventory_transactions receiving) = 3"
    by (simp add: receiving_def shop_def)
  ultimately show ?thesis
    using cancel_writes_no_ledger_row [of "''sess-1''" "''usr-1''" receiving] by simp
qed

section \<open>Catalog\<close>

lemma taken_barcode_is_rejected:
  assumes "\<exists>p \<in> set (products s). barcode p = Some b" and "pd_barcode d = Some b"
  shows "createProduct pid d userId s
           = (Inl (if b = [] then ConstraintFailed else BarcodeExists), s)"
proof (cases "b = []")
  case True
  with assms have "\<not> truthy (pd_barcode d)" and "\<not> product_accepted pid d s"
    by (auto simp: truthy_def product_accepted_def)
  with True show ?thesis
    by (simp add: createProduct_def insert_product_def split: option.splits)
next
  case False
  with assms have "truthy (pd_barcode d)"
    and "\<exists>p \<in> set (products s). sql_eq (barcode p) (pd_barcode d)"
    by (auto simp: truthy_def)
  with False show ?thesis by (simp add: createProduct_def)
qed

lemma find_fresh_product:
  "pid \<notin> set (map prod_id ps) \<Longrightarrow> prod_id row = pid \<Longrightarrow>
   find (\<lambda>p. prod_id p = pid) (ps @ [row]) = Some row"
  by (induction ps) auto

lemma accepted_product_is_created:
  assumes "product_accepted pid d s"
  shows "\<exists>row. createProduct pid d userId s = (Inr (Some row), s\<lparr>products := products s @ [row]\<rparr>)
           \<and> prod_id row = pid \<and> Some (prod_name row) = pd_name d
           \<and> barcode row = pd_barcode d \<and> is_active row"
proof -
  from assms obtain name where name: "pd_name d = Some name"
    by (auto simp: product_accepted_def)
  let ?row = "product_row pid name d"
  let ?s1 = "s\<lparr>products := products s @ [?row]\<rparr>"
  from assms have "\<not> (truthy (pd_barcode d)
                      \<and> (\<exists>p \<in> set (products s). sql_eq (barcode p) (pd_barcode d)))"
    by (auto simp: product_accepted_def)
  with assms name
  have "createProduct pid d userId s = (Inr (getProductById ?s1 pid), ?s1)"
    by (simp add: createProduct_def insert_product_def)
  moreover from assms have "getProductById ?s1 pid = Some ?row"
    by (simp add: getProductById_def product_accepted_def find_fresh_product product_row_def)
  moreover from name have "prod_id ?row = pid" "Some (prod_name ?row) = pd_name d"
      "barcode ?row = pd_barcode d" "is_active ?row"
    by (simp_all add: product_row_def)
  ultimately show ?thesis by (intro exI [of _ ?row]) simp
qed

text \<open>
  Claim C9. Creating a product whose non-null barcode is that of an existing product fails
  with a duplicate-key error and writes nothing: for a non-empty barcode it is
  \<^verbatim>\<open>createProduct\<close>'s own 'Product with this barcode already exists', and for the empty
  string, which \<^verbatim>\<open>if (barcode)\<close> lets pass, it is the \<^verbatim>\<open>UNIQUE\<close> clause of the products
  table. In particular a product that the table accepts is created with the barcode it
  was given and is returned, and from then on no second product can be created with that
  barcode. Two products that both have a null barcode, and are otherwise acceptable to
  the table under their two ids, are created one after the other: uniqueness is enforced
  among non-null barcodes only.
\<close>

theorem barcode_unique_among_non_null:
  "((\<exists>p \<in> set (products s). barcode p = Some b) \<and> pd_barcode d = Some b
      \<longrightarrow> createProduct pid d userId s
            = (Inl (if b = [] then ConstraintFailed else BarcodeExists), s))
   \<and> (product_accepted pa da s \<and> pd_barcode da = Some b \<and> pd_barcode db = Some b
      \<longrightarrow> (\<exists>row s1.
            createProduct pa da userId s = (Inr (Some row), s1)
          \<and> products s1 = products s @ [row]
          \<and> prod_id row = pa \<and> Some (prod_name row) = pd_name da
          \<and> barcode row = Some b \<and> is_active row
          \<and> createProduct pb db userId s1
              = (Inl (if b = [] then ConstraintFailed else BarcodeExists), s1)))
   \<and> (pd_barcode da = None \<and> pd_barcode db = None
        \<and> product_accepted pa da s \<and> product_accepted pb db s \<and> pa \<noteq> pb
      \<longrightarrow> (\<exists>row1 s1 row2 s2.
            createProduct pa da userId s = (Inr (Some row1), s1)
          \<and> createProduct pb db userId s1 = (Inr (Some row2), s2)
          \<and> products s2 = products s @ [row1, row2]
          \<and> prod_id row1 = pa \<and> barcode row1 = None
          \<and> prod_id row2 = pb \<and> barcode row2 = None))"
proof (intro conjI impI)
  assume "(\<exists>p \<in> set (products s). barcode p = Some b) \<and> pd_barcode d = Some b"
  then show "createProduct pid d userId s
               = (Inl (if b = [] then ConstraintFailed else BarcodeExists), s)"
    by (simp add: taken_barcode_is_rejected)
next
  assume same: "product_accepted pa da s \<and> pd_barcode da = Some b \<and> pd_barcode db = Some b"
  from accepted_product_is_created [of pa da s userId] same obtain row where
    first: "createProduct pa da userId s = (Inr (Some row), s\<lparr>products := products s @ [row]\<rparr>)"
    and row: "prod_id row = pa" "Some (prod_name row) = pd_name da" "barcode row = Some b"
      "is_active row"
    by auto
  let ?s1 = "s\<lparr>products := products s @ [row]\<rparr>"
  from row(3) have "\<exists>p \<in> set (products ?s1). barcode p = Some b" by simp
  with same have second: "createProduct pb db userId ?s1
      = (Inl (if b = [] then ConstraintFailed else BarcodeExists), ?s1)"
    by (intro taken_barcode_is_rejected) simp_all
  show "\<exists>row s1.
            createProduct pa da userId s = (Inr (Some row), s1)
          \<and> products s1 = products s @ [row]
          \<and> prod_id row = pa \<and> Some (prod_name row) = pd_name da
          \<and> barcode row = Some b \<and> is_active row
          \<and> createProduct pb db userId s1
              = (Inl (if b = [] then ConstraintFailed else BarcodeExists), s1)"
    using first second row by (intro exI [of _ row] exI [of _ ?s1]) simp
next
  assume both: "pd_barcode da = None \<and> pd_barcode db = None
      \<and> product_accepted pa da s \<and> product_accepted pb db s \<and> pa \<noteq> pb"
  then have null: "pd_barcode da = None" "pd_barcode db = None"
    and ok: "product_accepted pa da s" "product_accepted pb db s"
    and other: "pa \<noteq> pb"
    by simp_all
  from accepted_product_is_created [OF ok(1), of userId] null(1) obtain row1 where
    first: "createProduct pa da userId s
              = (Inr (Some row1), s\<lparr>products := products s @ [row1]\<rparr>)"
    and row1: "prod_id row1 = pa" "barcode row1 = None"
    by auto
  let ?s1 = "s\<lparr>products := products s @ [row1]\<rparr>"
  from ok(2) null(2) other row1 have "product_accepted pb db ?s1"
    by (auto simp: product_accepted_def fk_holds_def)
  from accepted_product_is_created [OF this, of userId] null(2) obtain row2 where
    second: "createProduct pb db userId ?s1
               = (Inr (Some row2), ?s1\<lparr>products := products ?s1 @ [row2]\<rparr>)"
    and row2: "prod_id row2 = pb" "barcode row2 = None"
    by auto
  from second have second': "createProduct pb db userId ?s1
               = (Inr (Some row2), s\<lparr>products := products s @ [row1, row2]\<rparr>)"
    by simp
  show "\<exists>row1 s1 row2 s2.
            createProduct pa da userId s = (Inr (Some row1), s1)
          \<and> createProduct pb db userId s1 = (Inr (Some row2), s2)
          \<and> products s2 = products s @ [row1, row2]
          \<and> prod_id row1 = pa \<and> barcode row1 = None
          \<and> prod_id row2 = pb \<and> barcode row2 = None"
    using first second' row1 row2
    by (intro exI [of _ row1] exI [of _ ?s1] exI [of _ row2]
              exI [of _ "s\<lparr>products := products s @ [row1, row2]\<rparr>"]) simp
qed

theorem barcode_unique_among_non_null_witness:
  "createProduct ''prod-2'' same_label ''usr-1'' shop = (Inl BarcodeExists, shop)
   \<and> (\<exists>row s1.
         createProduct ''prod-2'' new_label ''usr-1'' shop = (Inr (Some row), s1)
       \<and> map barcode (products s1) = [Some ''0001'', Some ''0002'']
       \<and> createProduct ''prod-3'' new_label ''usr-1'' s1 = (Inl BarcodeExists, s1))
   \<and> (\<exists>row s1.
         createProduct ''prod-2'' blank_label ''usr-1'' shop = (Inr (Some row), s1)
       \<and> map barcode (products s1) = [Some ''0001'', Some []]
       \<and> createProduct ''prod-3'' blank_label ''usr-1'' s1 = (Inl ConstraintFailed, s1))
   \<and> (\<exists>row1 s1 row2 s2.
         createProduct ''prod-3'' no_label ''usr-1'' shop = (Inr (Some row1), s1)
       \<and> createProduct ''prod-4'' no_label ''usr-1'' s1 = (Inr (Some row2), s2)
       \<and> map barcode (products s2) = [Some ''0001'', None, None])"
proof -
  have taken: "\<exists>p \<in> set (products shop). barcode p = Some ''0001''"
      "pd_barcode same_label = Some ''0001''"
    by (simp_all add: shop_def cellar_def wine_def same_label_def)
  have listed: "map barcode (products shop) = [Some ''0001'']"
    by (simp add: shop_def cellar_def wine_def)
  have labels: "pd_barcode new_label = Some ''0002''" "pd_barcode blank_label = Some []"
      "pd_barcode no_label = None"
    by (simp_all add: new_label_def blank_label_def no_label_def same_label_def)
  have acceptable: "product_accepted ''prod-2'' new_label shop"
      "product_accepted ''prod-2'' blank_label shop"
      "product_accepted ''prod-3'' no_label shop" "product_accepted ''prod-4'' no_label shop"
    by (simp_all add: product_accepted_def fk_holds_def new_label_def blank_label_def
                      no_label_def same_label_def shop_def cellar_def wine_def)
  from barcode_unique_among_non_null
         [where s = shop and b = "''0001''" and d = same_label and pid = "''prod-2''"
            and userId = "''usr-1''" and pa = "''prod-3''" and da = no_label
            and pb = "''prod-4''" and db = no_label]
    taken labels acceptable
  have first: "createProduct ''prod-2'' same_label ''usr-1'' shop = (Inl BarcodeExists, shop)"
    and fourth: "\<exists>row1 s1 row2 s2.
            createProduct ''prod-3'' no_label ''usr-1'' shop = (Inr (Some row1), s1)
          \<and> createProduct ''prod-4'' no_label ''usr-1'' s1 = (Inr (Some row2), s2)
          \<and> products s2 = products shop @ [row1, row2]
          \<and> prod_id row1 = ''prod-3'' \<and> barcode row1 = None
          \<and> prod_id row2 = ''prod-4'' \<and> barcode row2 = None"
    by simp_all
  from barcode_unique_among_non_null
         [where s = shop and b = "''0002''" and d = same_label and pid = "''prod-2''"
            and userId = "''usr-1''" and pa = "''prod-2''" and da = new_label
            and pb = "''prod-3''" and db = new_label]
    labels acceptable
  have second: "\<exists>row s1.
            createProduct ''prod-2'' new_label ''usr-1'' shop = (Inr (Some row), s1)
          \<and> products s1 = products shop @ [row]
          \<and> prod_id row = ''prod-2'' \<and> Some (prod_name row) = pd_name new_label
          \<and> barcode row = Some ''0002'' \<and> is_active row
          \<and> createProduct ''prod-3'' new_label ''usr-1'' s1 = (Inl BarcodeExists, s1)"
    by simp
  from barcode_unique_among_non_null
         [where s = shop and b = "[]" and d = same_label and pid = "''prod-2''"
            and userId = "''usr-1''" and pa = "''prod-2''" and da = blank_label
            and pb = "''prod-3''" and db = blank_label]
    labels acceptable
  have third: "\<exists>row s1.
            createProduct ''prod-2'' blank_label ''usr-1'' shop = (Inr (Some row), s1)
          \<and> products s1 = products shop @ [row]
          \<and> prod_id row = ''prod-2'' \<and> Some (prod_name row) = pd_name blank_label
          \<and> barcode row = Some [] \<and> is_active row
          \<and> createProduct ''prod-3'' blank_label ''usr-1'' s1 = (Inl ConstraintFailed, s1)"
    by simp
  from second listed have second': "\<exists>row s1.
         createProduct ''prod-2'' new_label ''usr-1'' shop = (Inr (Some row), s1)
       \<and> map barcode (products s1) = [Some ''0001'', Some ''0002'']
       \<and> createProduct ''prod-3'' new_label ''usr-1'' s1 = (Inl BarcodeExists, s1)"
    by auto
  from third listed have third': "\<exists>row s1.
         createProduct ''prod-2'' blank_label ''usr-1'' shop = (Inr (Some row), s1)
       \<and> map barcode (products s1) = [Some ''0001'', Some []]
       \<and> createProduct ''prod-3'' blank_label ''usr-1'' s1 = (Inl ConstraintFailed, s1)"
    by auto
  from fourth listed have fourth': "\<exists>row1 s1 row2 s2.
         createProduct ''prod-3'' no_label ''usr-1'' shop = (Inr (Some row1), s1)
       \<and> createProduct ''prod-4'' no_label ''usr-1'' s1 = (Inr (Some row2), s2)
       \<and> map barcode (products s2) = [Some ''0001'', None, None]"
    by auto
  from first second' third' fourth' show ?thesis by blast
qed

section \<open>Low stock\<close>

lemma left_join_category_nonempty: "left_join_category s p \<noteq> []"
  by (simp add: left_join_category_def split: list.splits)

lemma limit_offset_all:
  "off \<le> 0 \<Longrightarrow> lim < 0 \<or> int (length xs) \<le> lim \<Longrightarrow> limit_offset lim off xs = xs"
  by (auto simp: limit_offset_def Let_def)

lemma low_only_where:
  assumes "\<not> truthy (flt_locationId f)" "\<not> truthy (flt_categoryId f)"
    "\<not> truthy (flt_search f)" "flt_lowStock f"
  shows "inventory_where like f v
         = (is_active (iv_product v) \<and> low_stock (iv_inventory v) (iv_product v))"
  using assms by (simp add: inventory_where_def)

lemma low_stock_iff: "low_stock i p = (\<exists>m. minimum_stock p = Some m \<and> quantity i \<le> m)"
  by (simp add: low_stock_def split: option.splits)

lemma join_keys:
  "(\<lambda>v. row_key (iv_inventory v)) `
     {v \<in> set (inventory_join s). is_active (iv_product v) \<and> low_stock (iv_inventory v) (iv_product v)}
   = {row_key i | i p l. i \<in> set (inventory s) \<and> p \<in> set (products s)
        \<and> inv_product_id i = Some (prod_id p) \<and> l \<in> set (locations s)
        \<and> loc_id l = inv_location_id i \<and> is_active p \<and> low_stock i p}"
proof (intro set_eqI iffI)
  fix k
  assume "k \<in> (\<lambda>v. row_key (iv_inventory v)) `
     {v \<in> set (inventory_join s). is_active (iv_product v) \<and> low_stock (iv_inventory v) (iv_product v)}"
  then show "k \<in> {row_key i | i p l. i \<in> set (inventory s) \<and> p \<in> set (products s)
        \<and> inv_product_id i = Some (prod_id p) \<and> l \<in> set (locations s)
        \<and> loc_id l = inv_location_id i \<and> is_active p \<and> low_stock i p}"
    by (auto simp: inventory_join_def split: if_splits) blast
next
  fix k
  assume "k \<in> {row_key i | i p l. i \<in> set (inventory s) \<and> p \<in> set (products s)
        \<and> inv_product_id i = Some (prod_id p) \<and> l \<in> set (locations s)
        \<and> loc_id l = inv_location_id i \<and> is_active p \<and> low_stock i p}"
  then obtain i p l where k: "k = row_key i" and mem: "i \<in> set (inventory s)"
      "p \<in> set (products s)" "inv_product_id i = Some (prod_id p)" "l \<in> set (locations s)"
      "loc_id l = inv_location_id i" and low: "is_active p" "low_stock i p"
    by auto
  obtain c where c: "c \<in> set (left_join_category s p)"
    using left_join_category_nonempty [of s p] by (cases "left_join_category s p") auto
  let ?v = "\<lparr>iv_inventory = i, iv_product = p, iv_location = l, iv_category = c\<rparr>"
  have "?v \<in> set (inventory_join s)"
    using mem c by (auto simp: inventory_join_def intro!: bexI [of _ i] bexI [of _ p] bexI [of _ l])
  with low k show "k \<in> (\<lambda>v. row_key (iv_inventory v)) `
     {v \<in> set (inventory_join s). is_active (iv_product v) \<and> low_stock (iv_inventory v) (iv_product v)}"
    by (auto intro!: image_eqI [of _ _ ?v])
qed

lemma low_stock_query_pairs:
  assumes f: "\<not> truthy (flt_locationId f)" "\<not> truthy (flt_categoryId f)"
      "\<not> truthy (flt_search f)" "flt_lowStock f"
    and off: "(case flt_offset f of None \<Rightarrow> 0 | Some n \<Rightarrow> n) \<le> 0"
    and lim: "(case flt_limit f of None \<Rightarrow> 100 | Some n \<Rightarrow> n) < 0
              \<or> int (length (filter (inventory_where like f) (inventory_join s)))
                  \<le> (case flt_limit f of None \<Rightarrow> 100 | Some n \<Rightarrow> n)"
  shows "(\<lambda>v. row_key (iv_inventory v)) ` set (getInventory like s f)
         = {row_key i | i p l. i \<in> set (inventory s) \<and> p \<in> set (products s)
              \<and> inv_product_id i = Some (prod_id p) \<and> l \<in> set (locations s)
              \<and> loc_id l = inv_location_id i \<and> is_active p \<and> low_stock i p}"
proof -
  let ?rows = "filter (inventory_where like f) (inventory_join s)"
  have "getInventory like s f = sort_key (\<lambda>v. prod_name (iv_product v)) ?rows"
    unfolding getInventory_def using off lim by (intro limit_offset_all) simp_all
  then have "set (getInventory like s f) = set ?rows" by simp
  also have "\<dots> = {v \<in> set (inventory_join s).
                     is_active (iv_product v) \<and> low_stock (iv_inventory v) (iv_product v)}"
    by (auto simp: low_only_where [OF f])
  finally show ?thesis by (simp only: join_keys)
qed

lemma count_join:
  assumes "distinct (map prod_id ps)"
  shows "length [(i, p). i \<leftarrow> rows, p \<leftarrow> ps, inv_product_id i = Some (prod_id p), Q i p]
         = length (filter (\<lambda>i. \<exists>p \<in> set ps. inv_product_id i = Some (prod_id p) \<and> Q i p) rows)"
proof (induction rows)
  case Nil
  show ?case by simp
next
  case (Cons i rows)
  let ?hits = "filter (\<lambda>p. inv_product_id i = Some (prod_id p) \<and> Q i p) ps"
  have inner: "[(i, p). p \<leftarrow> ps, inv_product_id i = Some (prod_id p), Q i p] = map (Pair i) ?hits"
    by (induction ps) auto
  have unique: "length (filter (\<lambda>p. prod_id p = k) ps) \<le> 1" for k
    using assms by (induction ps) (auto simp: filter_empty_conv image_iff)
  have le1: "length ?hits \<le> 1"
  proof (cases "inv_product_id i")
    case None
    then show ?thesis by simp
  next
    case (Some k)
    then have "?hits = filter (Q i) (filter (\<lambda>p. prod_id p = k) ps)"
      by (auto intro: filter_cong)
    then have "length ?hits \<le> length (filter (\<lambda>p. prod_id p = k) ps)"
      by (simp only: length_filter_le)
    with unique [of k] show ?thesis by linarith
  qed
  have one: "length ?hits
             = (if \<exists>p \<in> set ps. inv_product_id i = Some (prod_id p) \<and> Q i p then 1 else 0)"
  proof (cases "\<exists>p \<in> set ps. inv_product_id i = Some (prod_id p) \<and> Q i p")
    case True
    then have "?hits \<noteq> []" by (auto simp: filter_empty_conv)
    then have "0 < length ?hits" by simp
    with le1 have "length ?hits = 1" by linarith
    with True show ?thesis by simp
  next
    case False
    then have "?hits = []" by (auto simp: filter_empty_conv)
    with False show ?thesis by simp
  qed
  show ?case using Cons.IH by (simp add: inner one)
qed

lemma low_stock_count_pairs:
  assumes "distinct (map prod_id (products s))"
    and "distinct (map row_key (filter (\<lambda>i. inv_product_id i \<noteq> None) (inventory s)))"
  shows "low_stock_count (getInventorySummary s)
         = card {row_key i | i p. i \<in> set (inventory s) \<and> p \<in> set (products s)
              \<and> inv_product_id i = Some (prod_id p) \<and> is_active p \<and> low_stock i p}"
proof -
  let ?P = "\<lambda>i. \<exists>p \<in> set (products s). inv_product_id i = Some (prod_id p) \<and> is_active p \<and> low_stock i p"
  have "low_stock_count (getInventorySummary s) = length (filter ?P (inventory s))"
    using count_join [OF assms(1), where rows = "inventory s"
                       and Q = "\<lambda>i p. is_active p \<and> low_stock i p"]
    by (simp add: getInventorySummary_def)
  also have "\<dots> = length (map row_key (filter ?P (inventory s)))" by simp
  also have "\<dots> = card (set (map row_key (filter ?P (inventory s))))"
  proof -
    have "filter ?P (inventory s)
          = filter ?P (filter (\<lambda>i. inv_product_id i \<noteq> None) (inventory s))"
      by (auto simp: filter_filter intro: filter_cong)
    with assms(2) have "distinct (map row_key (filter ?P (inventory s)))"
      by (simp only: distinct_map_filter)
    then show ?thesis by (simp only: distinct_card)
  qed
  also have "set (map row_key (filter ?P (inventory s)))
             = {row_key i | i p. i \<in> set (inventory s) \<and> p \<in> set (products s)
                  \<and> inv_product_id i = Some (prod_id p) \<and> is_active p \<and> low_stock i p}"
    by auto
  finally show ?thesis .
qed

text \<open>
  Claim C8, as stated: the low-stock query returns exactly the (product, location) pairs
  whose quantity is at or below the product's minimum stock, and the summary counts
  exactly those pairs. It fails for a product that has been soft-deleted: with 3 units of
  it on the shelf and a minimum of 5, the query returns nothing and the summary counts 0.
\<close>

theorem withdrawn_product_is_not_listed:
  "getInventory no_like withdrawn low_stock_only = []
   \<and> low_stock_count (getInventorySummary withdrawn) = 0
   \<and> cached_quantity withdrawn ''prod-1'' ''loc-1'' = 3
   \<and> map prod_id (products withdrawn) = [''prod-1'']
   \<and> map minimum_stock (products withdrawn) = [Some 5]"
  by (simp add: getInventory_def getInventorySummary_def inventory_join_def
                inventory_where_def limit_offset_def low_stock_only_def withdrawn_def
                shop_def cellar_def wine_def left_join_category_def cached_quantity_def
                select_inventory_def)

text \<open>
  Claim C8, amended. With only the low-stock flag set and a page that cuts nothing off
  (no offset, and a limit that is negative or not below the number of matching rows), the
  low-stock query returns exactly the (product, location) pairs of the inventory rows whose
  product is active, whose location has its row, and whose quantity is at or below the
  product's minimum stock, equality included. The summary's low-stock count ranges over
  the inventory rows of active products with a quantity at or below the minimum, whether
  or not the location has a row; where product ids and (product, location) keys are unique
  it is the number of such pairs.
\<close>

theorem low_stock_query_lists_active_pairs:
  assumes "\<not> truthy (flt_locationId f)" and "\<not> truthy (flt_categoryId f)"
    and "\<not> truthy (flt_search f)" and "flt_lowStock f"
    and "(case flt_offset f of None \<Rightarrow> 0 | Some n \<Rightarrow> n) \<le> 0"
    and "(case flt_limit f of None \<Rightarrow> 100 | Some n \<Rightarrow> n) < 0
         \<or> int (length (filter (inventory_where like f) (inventory_join s)))
             \<le> (case flt_limit f of None \<Rightarrow> 100 | Some n \<Rightarrow> n)"
  shows "(\<lambda>v. row_key (iv_inventory v)) ` set (getInventory like s f)
           = {row_key i | i p l. i \<in> set (inventory s) \<and> p \<in> set (products s)
                \<and> inv_product_id i = Some (prod_id p) \<and> l \<in> set (locations s)
                \<and> loc_id l = inv_location_id i \<and> is_active p
                \<and> (\<exists>m. minimum_stock p = Some m \<and> quantity i \<le> m)}
       \<and> (distinct (map prod_id (products s))
            \<and> distinct (map row_key (filter (\<lambda>i. inv_product_id i \<noteq> None) (inventory s)))
          \<longrightarrow> low_stock_count (getInventorySummary s)
              = card {row_key i | i p. i \<in> set (inventory s) \<and> p \<in> set (products s)
                        \<and> inv_product_id i = Some (prod_id p) \<and> is_active p
                        \<and> (\<exists>m. minimum_stock p = Some m \<and> quantity i \<le> m)})"
  using low_stock_query_pairs [OF assms] low_stock_count_pairs [of s]
  by (simp only: low_stock_iff) simp

theorem low_stock_query_lists_active_pairs_witness:
  "(\<lambda>v. row_key (iv_inventory v)) ` set (getInventory no_like at_minimum low_stock_only)
     = {(Some ''prod-1'', ''loc-1'')}
   \<and> cached_quantity at_minimum ''prod-1'' ''loc-1'' = 5
   \<and> minimum_stock wine = Some 5
   \<and> low_stock_count (getInventorySummary at_minimum) = 1"
proof -
  have flags: "\<not> truthy (flt_locationId low_stock_only)"
      "\<not> truthy (flt_categoryId low_stock_only)" "\<not> truthy (flt_search low_stock_only)"
      "flt_lowStock low_stock_only"
      "(case flt_offset low_stock_only of None \<Rightarrow> 0 | Some n \<Rightarrow> n) \<le> 0"
    by (simp_all add: low_stock_only_def truthy_def)
  have page: "(case flt_limit low_stock_only of None \<Rightarrow> 100 | Some n \<Rightarrow> n) < 0
      \<or> int (length (filter (inventory_where no_like low_stock_only) (inventory_join at_minimum)))
          \<le> (case flt_limit low_stock_only of None \<Rightarrow> 100 | Some n \<Rightarrow> n)"
    by (simp add: low_stock_only_def inventory_join_def at_minimum_def shop_def cellar_def wine_def
                  left_join_category_def)
  have unique: "distinct (map prod_id (products at_minimum))"
      "distinct (map row_key (filter (\<lambda>i. inv_product_id i \<noteq> None) (inventory at_minimum)))"
    by (simp_all add: at_minimum_def shop_def cellar_def row_key_def)
  have pairs: "{row_key i | i p l. i \<in> set (inventory at_minimum) \<and> p \<in> set (products at_minimum)
                \<and> inv_product_id i = Some (prod_id p) \<and> l \<in> set (locations at_minimum)
                \<and> loc_id l = inv_location_id i \<and> is_active p
                \<and> (\<exists>m. minimum_stock p = Some m \<and> quantity i \<le> m)} = {(Some ''prod-1'', ''loc-1'')}"
    by (auto simp: at_minimum_def shop_def cellar_def wine_def row_key_def)
  have counted: "{row_key i | i p. i \<in> set (inventory at_minimum) \<and> p \<in> set (products at_minimum)
                \<and> inv_product_id i = Some (prod_id p) \<and> is_active p
                \<and> (\<exists>m. minimum_stock p = Some m \<and> quantity i \<le> m)} = {(Some ''prod-1'', ''loc-1'')}"
    by (auto simp: at_minimum_def shop_def cellar_def wine_def row_key_def)
  have shelf: "cached_quantity at_minimum ''prod-1'' ''loc-1'' = 5"
      "minimum_stock wine = Some 5"
    by (simp_all add: cached_quantity_def select_inventory_def at_minimum_def wine_def)
  from low_stock_query_lists_active_pairs [OF flags page, unfolded pairs counted] unique shelf
  show ?thesis by simp
qed

end
